theory Spec2Isabelle
  imports Main "HOL-Library.Char_ord" "HOL-Library.List_Lexorder" "HOL-Library.Multiset"
begin

section \<open>Strings, arrays and plain objects\<close>

text \<open>
  A JavaScript string is modelled as a \<^typ>\<open>string\<close>. The order on strings is the
  lexicographic order of the character codes, a proper prefix being smaller: it is the order
  \<^verbatim>\<open>Array.prototype.sort()\<close> uses when it is called without a comparison function.

  A plain object such as a \<^verbatim>\<open>Record<string, string>\<close> is the list of its
  properties in enumeration order; a well-formed object has no key twice
  (\<open>distinct (Object_keys obj)\<close>).
\<close>

text \<open>\<^verbatim>\<open>Array.prototype.join(sep)\<close> on an array of strings.\<close>

fun join :: "string \<Rightarrow> string list \<Rightarrow> string" where
  "join sep [] = []"
| "join sep [x] = x"
| "join sep (x # y # ys) = x @ sep @ join sep (y # ys)"

definition Object_keys :: "(string \<times> 'v) list \<Rightarrow> string list" where
  "Object_keys obj = map fst obj"

text \<open>
  \<^verbatim>\<open>`${parameters[key]}`\<close>: the value of property \<open>key\<close> inside a template literal
  (a missing property would print as \<^verbatim>\<open>undefined\<close>).
\<close>

definition member :: "(string \<times> string) list \<Rightarrow> string \<Rightarrow> string" where
  "member obj key = (case map_of obj key of Some v \<Rightarrow> v | None \<Rightarrow> ''undefined'')"

section \<open>The signer\<close>

subsection \<open>formatQuery\<close>

text \<open>
  \<^verbatim>\<open>const sortedKeys = Object.keys(parameters).sort();\<close>
  \<^verbatim>\<open>return sortedKeys.map(key => `${key}=${parameters[key]}`).join('&');\<close>
\<close>

definition sortedKeys :: "(string \<times> string) list \<Rightarrow> string list" where
  "sortedKeys parameters = sort (Object_keys parameters)"

definition formatQuery :: "(string \<times> string) list \<Rightarrow> string" where
  "formatQuery parameters =
     join ''&'' (map (\<lambda>key. key @ ''='' @ member parameters key) (sortedKeys parameters))"

subsection \<open>getSignatureKey and signV4Request\<close>

text \<open>
  The hash functions come from Node's \<^verbatim>\<open>crypto\<close> module and are parameters of the
  model: \<open>hmac cr key msg\<close> is
  \<^verbatim>\<open>crypto.createHmac('sha256', key).update(msg).digest()\<close>,
  \<open>sha256_hex cr msg\<close> is
  \<^verbatim>\<open>crypto.createHash('sha256').update(msg).digest('hex')\<close>, and \<open>hex cr\<close> is the
  hexadecimal encoding that \<^verbatim>\<open>digest('hex')\<close> applies to a digest.
\<close>

record crypto =
  hmac :: "string \<Rightarrow> string \<Rightarrow> string"
  sha256_hex :: "string \<Rightarrow> string"
  hex :: "string \<Rightarrow> string"

text \<open>The private fields of \<^verbatim>\<open>class JimengClient\<close>.\<close>

record JimengClient =
  accessKey :: string
  secretKey :: string
  endpoint :: string
  host :: string
  region :: string
  service :: string
  debug :: bool
  timeout :: nat
  retries :: nat

definition getSignatureKey :: "crypto \<Rightarrow> string \<Rightarrow> string \<Rightarrow> string \<Rightarrow> string \<Rightarrow> string" where
  "getSignatureKey cr key dateStamp regionName serviceName =
     (let kDate = hmac cr key dateStamp;
          kRegion = hmac cr kDate regionName;
          kService = hmac cr kRegion serviceName;
          kSigning = hmac cr kService ''request''
      in kSigning)"

text \<open>
  \<open>signV4Request\<close> reads the clock once; \<open>currentDate\<close> is that reading after
  \<^verbatim>\<open>t.toISOString().replace(/[:\-]|\.\d{3}/g, '')\<close>, and it is an argument of the
  model. The local constants of the function are definitions of their own, under the names
  they have in the source.
\<close>

text \<open>\<^verbatim>\<open>const usedRegion = region || this.region;\<close>\<close>

definition usedRegion :: "JimengClient \<Rightarrow> string option \<Rightarrow> string" where
  "usedRegion c reg = (case reg of None \<Rightarrow> region c | Some r \<Rightarrow> if r = [] then region c else r)"

definition datestamp :: "string \<Rightarrow> string" where
  "datestamp currentDate = take 8 currentDate"

definition signedHeaders :: string where
  "signedHeaders = ''content-type;host;x-content-sha256;x-date''"

definition contentType :: string where
  "contentType = ''application/json''"

definition payloadHash :: "crypto \<Rightarrow> string \<Rightarrow> string" where
  "payloadHash cr reqBody = sha256_hex cr reqBody"

definition canonicalHeaders :: "crypto \<Rightarrow> JimengClient \<Rightarrow> string \<Rightarrow> string \<Rightarrow> string" where
  "canonicalHeaders cr c currentDate reqBody =
     join [CHR 0x0A]
       [''content-type:'' @ contentType,
        ''host:'' @ host c,
        ''x-content-sha256:'' @ payloadHash cr reqBody,
        ''x-date:'' @ currentDate] @ [CHR 0x0A]"

definition canonicalRequest :: "crypto \<Rightarrow> JimengClient \<Rightarrow> string \<Rightarrow> string \<Rightarrow> string \<Rightarrow> string" where
  "canonicalRequest cr c currentDate reqQuery reqBody =
     join [CHR 0x0A]
       [''POST'', ''/'', reqQuery, canonicalHeaders cr c currentDate reqBody, signedHeaders,
        payloadHash cr reqBody]"

definition credentialScope :: "JimengClient \<Rightarrow> string \<Rightarrow> string option \<Rightarrow> string" where
  "credentialScope c currentDate reg =
     datestamp currentDate @ ''/'' @ usedRegion c reg @ ''/'' @ service c @ ''/request''"

definition stringToSign ::
  "crypto \<Rightarrow> JimengClient \<Rightarrow> string \<Rightarrow> string \<Rightarrow> string \<Rightarrow> string option \<Rightarrow> string" where
  "stringToSign cr c currentDate reqQuery reqBody reg =
     join [CHR 0x0A]
       [''HMAC-SHA256'', currentDate, credentialScope c currentDate reg,
        sha256_hex cr (canonicalRequest cr c currentDate reqQuery reqBody)]"

definition signature ::
  "crypto \<Rightarrow> JimengClient \<Rightarrow> string \<Rightarrow> string \<Rightarrow> string \<Rightarrow> string option \<Rightarrow> string" where
  "signature cr c currentDate reqQuery reqBody reg =
     (let signingKey =
            getSignatureKey cr (secretKey c) (datestamp currentDate) (usedRegion c reg) (service c)
      in hex cr (hmac cr signingKey (stringToSign cr c currentDate reqQuery reqBody reg)))"

record signed_request =
  headers :: "(string \<times> string) list"
  requestUrl :: string

definition signV4Request ::
  "crypto \<Rightarrow> JimengClient \<Rightarrow> string \<Rightarrow> string \<Rightarrow> string \<Rightarrow> string option \<Rightarrow> signed_request" where
  "signV4Request cr c currentDate reqQuery reqBody reg =
     (let authorizationHeader =
            ''HMAC-SHA256'' @ '' Credential='' @ accessKey c @ ''/''
              @ credentialScope c currentDate reg
              @ '', SignedHeaders='' @ signedHeaders
              @ '', Signature='' @ signature cr c currentDate reqQuery reqBody reg
      in \<lparr> headers =
             [(''X-Date'', currentDate),
              (''Authorization'', authorizationHeader),
              (''X-Content-Sha256'', payloadHash cr reqBody),
              (''Content-Type'', contentType),
              (''Host'', host c)],
           requestUrl = endpoint c @ ''?'' @ reqQuery \<rparr>)"

section \<open>Values, error texts and results\<close>

text \<open>
  What the provider sends back is untyped data. \<open>JUndefined\<close> is the value of a property
  that is not there. Numbers are the integers (status codes, error codes, pixel counts);
  fractions and \<^verbatim>\<open>NaN\<close> are outside the model. An object is the list of its properties
  and \<open>member_of\<close> reads the first entry of a key.
\<close>

datatype json =
    JUndefined
  | JNull
  | JBool bool
  | JNum int
  | JStr string
  | JArr "json list"
  | JObj "(string \<times> json) list"

text \<open>The truth value of \<open>v\<close> in a condition, in \<^verbatim>\<open>v || d\<close> and in \<^verbatim>\<open>!v\<close>.\<close>

fun truthy :: "json \<Rightarrow> bool" where
  "truthy JUndefined = False"
| "truthy JNull = False"
| "truthy (JBool b) = b"
| "truthy (JNum n) = (n \<noteq> 0)"
| "truthy (JStr s) = (s \<noteq> [])"
| "truthy (JArr xs) = True"
| "truthy (JObj fs) = True"

text \<open>
  The texts of the errors the client throws and returns. The source writes them as Chinese
  string literals and template literals; a constructor stands for one literal or template
  and carries the values the template interpolates, so two error values are equal exactly
  when the source builds them from the same template and the same values.
  \<^item> \<open>Provider v\<close>: the value \<^verbatim>\<open>response.data.message\<close>, returned as it is;
  \<^item> \<open>Transport t\<close>: the message of the error \<^verbatim>\<open>axios\<close> rejects with when the connection
    fails; the text is the environment's;
  \<^item> \<open>TimeoutExceeded n\<close>: "timeout of \<open>n\<close>ms exceeded", the message of the error
    \<^verbatim>\<open>axios\<close> rejects with when a request sent with the timeout \<open>n\<close> gets no answer;
  \<^item> \<open>StatusRejected n\<close>: the message of the error \<^verbatim>\<open>axios\<close> itself rejects with for a
    status its \<^verbatim>\<open>validateStatus\<close> refuses;
  \<^item> \<open>TypeError\<close>: the message of the engine's TypeError (a property read on
    \<^verbatim>\<open>undefined\<close> or \<^verbatim>\<open>null\<close>, a call of something that is no function, a value that
    cannot be converted to a number or to a string);
  \<^item> \<open>HttpError n\<close>: "HTTP error! status code: n" (queryAsyncTask, submitAsyncTask);
  \<^item> \<open>HttpErrorDetail n d\<close>: the same with ", details: JSON.stringify(d)" appended
    (getVideoTaskResult, submitI2VTask);
  \<^item> \<open>ApiError m c\<close>: "API error: (m || 'unknown error') (error code: c)";
  \<^item> \<open>ApiErrorI2V m c st\<close>: "API error: (m || 'unknown error'), error code:
    (c || st || 'none')";
  \<^item> \<open>BusinessError m c\<close>: "the server returned a business error: m (error code: c)";
  \<^item> \<open>ContentSafety m\<close>: "content safety check not passed: m";
  \<^item> \<open>BadSubmitResponse\<close>: "submitting the task failed or the response format is wrong";
  \<^item> \<open>SubmitFailed\<close>: "submitting the task failed";
  \<^item> \<open>AreaOutOfRange a\<close>: "the product of width and height must be within
    [1048576, 16777216], current value: a";
  \<^item> \<open>AreaOutOfRangeRounded w h\<close>: the same text, its current value being the product of
    \<open>w\<close> and \<open>h\<close> as the engine rounds and prints it, where that product is beyond the
    integers a number holds exactly;
  \<^item> \<open>ImageTaskFailed\<close>: "the image generation task failed";
  \<^item> \<open>ImagePollTimeout\<close>: "polling the task result timed out, the image generation may
    still be running";
  \<^item> \<open>VideoTaskFailed\<close>: "the video generation task failed";
  \<^item> \<open>VideoPollTimeout\<close>: "polling the task result timed out, please query the result by
    hand with the task id";
  \<^item> \<open>MissingImage\<close>: "missing required parameter: image_url or image_urls" (the two
    names written with underscores);
  \<^item> \<open>NoTaskId\<close>: "the server returned no task id";
  \<^item> \<open>ImageFormat e\<close>: "image format unsupported or unreachable. Please make sure that
    ... Detailed error: e";
  \<^item> \<open>MaxRetries\<close>: "submitting the task failed, the maximum number of retries has been
    reached";
  \<^item> \<open>UnknownError\<close>: "unknown error", after a retry loop ("should not get here").
\<close>

datatype message =
    Provider json
  | Transport string
  | TimeoutExceeded nat
  | StatusRejected int
  | TypeError
  | HttpError int
  | HttpErrorDetail int json
  | ApiError json json
  | ApiErrorI2V json json json
  | BusinessError json json
  | ContentSafety json
  | BadSubmitResponse
  | SubmitFailed
  | AreaOutOfRange int
  | AreaOutOfRangeRounded int int
  | ImageTaskFailed
  | ImagePollTimeout
  | VideoTaskFailed
  | VideoPollTimeout
  | MissingImage
  | NoTaskId
  | ImageFormat message
  | MaxRetries
  | UnknownError

text \<open>
  A thrown error is the left summand. \<open>member_of v k\<close> is the property read \<^verbatim>\<open>v.k\<close>: it
  throws on \<^verbatim>\<open>undefined\<close> and \<^verbatim>\<open>null\<close>, and a property that is not there reads
  as \<^verbatim>\<open>undefined\<close>. It is used for the names of the provider's protocol only
  (\<^verbatim>\<open>code\<close>, \<^verbatim>\<open>message\<close>, \<^verbatim>\<open>data\<close>, \<^verbatim>\<open>status\<close>, \<^verbatim>\<open>task_id\<close>,
  \<^verbatim>\<open>image_urls\<close>, \<^verbatim>\<open>resp_data\<close>, \<^verbatim>\<open>video_url\<close>, \<^verbatim>\<open>urls\<close>), none of which a
  string, an array, a number or a boolean has.
\<close>

fun member_of :: "json \<Rightarrow> string \<Rightarrow> message + json" where
  "member_of JUndefined k = Inl TypeError"
| "member_of JNull k = Inl TypeError"
| "member_of (JObj fs) k = Inr (case map_of fs k of Some v \<Rightarrow> v | None \<Rightarrow> JUndefined)"
| "member_of v k = Inr JUndefined"

text \<open>Sequencing of steps that may throw.\<close>

definition and_then :: "message + 'a \<Rightarrow> ('a \<Rightarrow> message + 'b) \<Rightarrow> message + 'b" where
  "and_then r f = (case r of Inl e \<Rightarrow> Inl e | Inr v \<Rightarrow> f v)"

text \<open>
  \<^verbatim>\<open>interface ApiResponse\<close>. \<open>success\<close> is always there; an optional property that is
  not set is \<open>JUndefined\<close>, and \<open>None\<close> for \<open>error\<close>.
\<close>

record ApiResponse =
  success :: bool
  image_urls :: json
  video_urls :: json
  error :: "message option"
  raw_response :: json
  task_id :: json
  status :: json
  data :: json

definition failure :: "message \<Rightarrow> ApiResponse" where
  "failure m = \<lparr> success = False, image_urls = JUndefined, video_urls = JUndefined,
                 error = Some m, raw_response = JUndefined, task_id = JUndefined,
                 status = JUndefined, data = JUndefined \<rparr>"

text \<open>
  \<^verbatim>\<open>catch (error) { return { success: false, error: error.message } }\<close> around a
  \<^verbatim>\<open>try\<close> block that returns a result or throws.
\<close>

definition catch_failure :: "message + ApiResponse \<Rightarrow> ApiResponse" where
  "catch_failure r = (case r of Inl e \<Rightarrow> failure e | Inr v \<Rightarrow> v)"

text \<open>
  Whether an error text is the empty string, for \<^verbatim>\<open>taskResult.error || '...'\<close>: the
  literals and templates are never empty.
\<close>

fun message_truthy :: "message \<Rightarrow> bool" where
  "message_truthy (Provider v) = truthy v"
| "message_truthy (Transport t) = (t \<noteq> [])"
| "message_truthy m = True"

text \<open>\<^verbatim>\<open>e || d\<close> for an optional error text \<open>e\<close>.\<close>

definition error_or :: "message option \<Rightarrow> message \<Rightarrow> message" where
  "error_or e d = (case e of None \<Rightarrow> d | Some m \<Rightarrow> if message_truthy m then m else d)"

text \<open>
  A read \<^verbatim>\<open>v.k\<close> at a place where \<open>v\<close> has been tested to be truthy, or has been read
  from before, so that the read cannot throw.
\<close>

definition read :: "json \<Rightarrow> string \<Rightarrow> json" where
  "read v k = (case member_of v k of Inr x \<Rightarrow> x | Inl e \<Rightarrow> JUndefined)"

section \<open>Built-in functions of the language\<close>

text \<open>
  Built-in functions that the client calls on data from outside, where what they return is
  not written out in the model, are its parameters:
  \<^item> \<open>JSON_parse js t\<close> is \<^verbatim>\<open>JSON.parse(t)\<close>, \<open>None\<close> when it throws;
  \<^item> \<open>JSON_stringify js v\<close> is \<^verbatim>\<open>JSON.stringify(v)\<close>;
  \<^item> \<open>ToString js v\<close> is the text of \<open>v\<close> inside a template literal, \<open>None\<close> when the
    conversion throws (a TypeError: an object whose \<^verbatim>\<open>toString\<close> and \<^verbatim>\<open>valueOf\<close> are no
    functions);
  \<^item> \<open>String_toUpperCase js t\<close> is \<^verbatim>\<open>t.toUpperCase()\<close> for a string \<open>t\<close> that holds a
    character outside ASCII;
  \<^item> \<open>GreaterThanZero js v\<close> is \<^verbatim>\<open>v > 0\<close> for a string, an array or an object \<open>v\<close>: the
    comparison converts \<open>v\<close> to a number first, and \<open>None\<close> is a conversion that throws (a
    TypeError: an object whose \<^verbatim>\<open>valueOf\<close> and \<^verbatim>\<open>toString\<close> are no functions).
\<close>

record builtins =
  JSON_parse :: "string \<Rightarrow> json option"
  JSON_stringify :: "json \<Rightarrow> string"
  ToString :: "json \<Rightarrow> string option"
  String_toUpperCase :: "string \<Rightarrow> string"
  GreaterThanZero :: "json \<Rightarrow> bool option"

text \<open>
  The error thrown by \<^verbatim>\<open>throw new Error(`...${v}...`)\<close>, \<open>vs\<close> being the values the
  template interpolates and \<open>m\<close> the error with the text built: when one of the values
  cannot be converted to a string, building the text throws a TypeError, and that is the
  error thrown.
\<close>

definition interpolated :: "builtins \<Rightarrow> json list \<Rightarrow> message \<Rightarrow> message" where
  "interpolated js vs m = (if list_all (\<lambda>v. ToString js v \<noteq> None) vs then m else TypeError)"

text \<open>
  \<^verbatim>\<open>String.prototype.toUpperCase\<close>. On a string of ASCII characters it turns the letters a
  to z into A to Z and leaves every other character as it is; on any other string it is the
  parameter.
\<close>

definition toUpperCase :: "builtins \<Rightarrow> string \<Rightarrow> string" where
  "toUpperCase js s =
     (if list_all (\<lambda>ch. of_char ch < (128::nat)) s
      then map (\<lambda>ch. if CHR ''a'' \<le> ch \<and> ch \<le> CHR ''z''
                      then char_of (of_char ch - (32::nat)) else ch) s
      else String_toUpperCase js s)"

text \<open>
  \<^verbatim>\<open>v.length\<close> for a truthy \<open>v\<close>: the number of elements of an array, the number of
  characters of a string, the property of that name of an object; a number and a boolean
  have none.
\<close>

definition length_of :: "json \<Rightarrow> json" where
  "length_of v =
     (case v of
        JArr xs \<Rightarrow> JNum (int (length xs))
      | JStr t \<Rightarrow> JNum (int (length t))
      | w \<Rightarrow> read w ''length'')"

text \<open>
  \<^verbatim>\<open>v > 0\<close>: a number is compared as it is, \<^verbatim>\<open>true\<close> counts as 1, \<^verbatim>\<open>false\<close> and
  \<^verbatim>\<open>null\<close> as 0, \<^verbatim>\<open>undefined\<close> is no number and compares false; for a string, an array
  and an object it is the parameter. \<open>None\<close> is a comparison that throws.
\<close>

definition greater_than_zero :: "builtins \<Rightarrow> json \<Rightarrow> bool option" where
  "greater_than_zero js v =
     (case v of
        JNum n \<Rightarrow> Some (0 < n)
      | JBool b \<Rightarrow> Some b
      | JNull \<Rightarrow> Some False
      | JUndefined \<Rightarrow> Some False
      | w \<Rightarrow> GreaterThanZero js w)"

section \<open>The network and axios\<close>

text \<open>
  What the client does to the outside world is a trace of events: an HTTP request (with the
  options it is sent with), a wait (\<^verbatim>\<open>setTimeout\<close>, in milliseconds), and the log line that
  announces polling attempt \<open>i\<close> of \<open>n\<close>. The other log lines are not kept. The network is
  any function from the number of the request (counting every request the client has sent)
  to what comes of it: the connection fails (\<open>NoResponse\<close>, with the text of the failure), a
  response arrives with its status and parsed body, or nothing ever comes back
  (\<open>Silence\<close>). The signed headers and the URL's host do not change what the model's network
  answers, so a request is its query string, its body and the two options the calls differ
  in; \<open>rq_timeout = None\<close> is a call that sets no timeout and \<open>Default2xx\<close> a call that
  leaves \<^verbatim>\<open>validateStatus\<close> at its default.
\<close>

datatype validate = AnyStatus | Default2xx

record request =
  rq_query :: string
  rq_body :: json
  rq_timeout :: "nat option"
  rq_validateStatus :: validate

datatype event = Post request | Sleep nat | Poll nat nat

datatype http_result = NoResponse string | Response int json | Silence

type_synonym network = "nat \<Rightarrow> http_result"

record io =
  sent :: nat
  trace :: "event list"

definition emit :: "event \<Rightarrow> io \<Rightarrow> io" where
  "emit e s = s\<lparr> trace := trace s @ [e] \<rparr>"

text \<open>
  One call of \<^verbatim>\<open>axios\<close>, awaited. The promise resolves with the response, or rejects (the
  \<^verbatim>\<open>await\<close> throws) when the connection fails and when the status is refused: with
  \<^verbatim>\<open>validateStatus: null\<close> no status is, with the default every status outside 200..299
  is. When nothing comes back, a call with a timeout rejects once the timeout is over, and a
  call without one (no \<^verbatim>\<open>timeout\<close> option, or the value 0, which axios reads as none)
  never settles: the result \<open>None\<close> is an \<^verbatim>\<open>await\<close> that never returns.
\<close>

definition settle :: "request \<Rightarrow> http_result \<Rightarrow> (message + int \<times> json) option" where
  "settle rq r =
     (case r of
        NoResponse t \<Rightarrow> Some (Inl (Transport t))
      | Response st d \<Rightarrow>
          if rq_validateStatus rq = Default2xx \<and> \<not> (200 \<le> st \<and> st < 300)
          then Some (Inl (StatusRejected st))
          else Some (Inr (st, d))
      | Silence \<Rightarrow>
          (case rq_timeout rq of
             None \<Rightarrow> None
           | Some ms \<Rightarrow> if ms = 0 then None else Some (Inl (TimeoutExceeded ms))))"

definition axios :: "network \<Rightarrow> request \<Rightarrow> io \<Rightarrow> (message + int \<times> json) option \<times> io" where
  "axios net rq s =
     (settle rq (net (sent s)), \<lparr> sent = Suc (sent s), trace = trace s @ [Post rq] \<rparr>)"

text \<open>
  A method of the client returns a result together with the state it leaves, or never
  returns: then the result is \<open>None\<close> and the state is the one in which it is stuck.
\<close>

section \<open>Submitting and querying tasks\<close>

text \<open>\<^verbatim>\<open>JSON.stringify({ return_url: true })\<close>\<close>

definition return_url_json :: string where
  "return_url_json = ''{'' @ [CHR 0x22] @ ''return_url'' @ [CHR 0x22] @ '':true}''"

subsection \<open>submitAsyncTask\<close>

text \<open>
  The handling of the response in the \<^verbatim>\<open>try\<close> block. The error for a code other than
  10000 is
  \<^verbatim>\<open>new Error(`... ${response.data.message || '...'} (...: ${response.data.code})`)\<close>.
\<close>

definition submitAsyncTask_response :: "builtins \<Rightarrow> int \<Rightarrow> json \<Rightarrow> message + ApiResponse" where
  "submitAsyncTask_response js st d =
     (if st \<noteq> 200 then Inl (HttpError st)
      else and_then (member_of d ''code'') (\<lambda>code.
        if code \<noteq> JNum 10000
        then and_then (member_of d ''message'') (\<lambda>m.
          Inl (interpolated js ((if truthy m then [m] else []) @ [code]) (ApiError m code)))
        else and_then (member_of d ''data'') (\<lambda>dd.
          if truthy dd
          then and_then (member_of dd ''task_id'') (\<lambda>tid.
            if truthy tid
            then Inr \<lparr> success = True, image_urls = JUndefined, video_urls = JUndefined,
                       error = None, raw_response = d, task_id = tid,
                       status = JUndefined, data = JUndefined \<rparr>
            else Inr ((failure BadSubmitResponse)\<lparr> raw_response := d \<rparr>))
          else Inr ((failure BadSubmitResponse)\<lparr> raw_response := d \<rparr>))))"

text \<open>
  The request of submitAsyncTask:
  \<^verbatim>\<open>axios.post(requestUrl, params, { headers, timeout: this.timeout, validateStatus: null })\<close>.
\<close>

definition submitAsyncTask_request :: "JimengClient \<Rightarrow> json \<Rightarrow> request" where
  "submitAsyncTask_request c params =
     (let formattedQuery =
            formatQuery [(''Action'', ''CVSync2AsyncSubmitTask''), (''Version'', ''2022-08-31'')]
      in \<lparr> rq_query = formattedQuery, rq_body = params,
           rq_timeout = Some (timeout c), rq_validateStatus = AnyStatus \<rparr>)"

definition submitAsyncTask ::
  "builtins \<Rightarrow> network \<Rightarrow> JimengClient \<Rightarrow> json \<Rightarrow> io \<Rightarrow> ApiResponse option \<times> io" where
  "submitAsyncTask js net c params s =
     (case axios net (submitAsyncTask_request c params) s of
        (None, s') \<Rightarrow> (None, s')
      | (Some r, s') \<Rightarrow>
          (Some (catch_failure (and_then r (\<lambda>(st, d). submitAsyncTask_response js st d))), s'))"

subsection \<open>queryAsyncTask\<close>

text \<open>
  The \<^verbatim>\<open>switch (taskStatus)\<close> of queryAsyncTask. The cases compare with \<^verbatim>\<open>===\<close>; the
  default calls \<^verbatim>\<open>taskStatus.toUpperCase()\<close>, which throws unless the status is a string.
\<close>

definition normalizedStatus :: "builtins \<Rightarrow> json \<Rightarrow> message + string" where
  "normalizedStatus js taskStatus =
     (case taskStatus of
        JStr t \<Rightarrow>
          Inr (if t = ''in_queue'' then ''PENDING''
               else if t = ''generating'' \<or> t = ''processing'' then ''RUNNING''
               else if t = ''done'' then ''SUCCEEDED''
               else if t = ''fail'' \<or> t = ''failed'' then ''FAILED''
               else toUpperCase js t)
      | _ \<Rightarrow> Inl TypeError)"

definition moderation_codes :: "int list" where
  "moderation_codes = [50411, 50511, 50412, 50512, 50413]"

definition queryAsyncTask_response :: "builtins \<Rightarrow> int \<Rightarrow> json \<Rightarrow> message + ApiResponse" where
  "queryAsyncTask_response js st d =
     (if st \<noteq> 200 then Inl (HttpError st)
      else and_then (member_of d ''code'') (\<lambda>code.
        if code \<noteq> JNum 10000
        then
          if (case code of JNum n \<Rightarrow> List.member moderation_codes n | _ \<Rightarrow> False)
          then and_then (member_of d ''message'') (\<lambda>m.
            Inr \<lparr> success = False, image_urls = JUndefined, video_urls = JUndefined,
                  error = Some (Provider m), raw_response = d, task_id = JUndefined,
                  status = JStr ''FAILED'', data = JUndefined \<rparr>)
          else and_then (member_of d ''message'') (\<lambda>m.
            Inl (interpolated js ((if truthy m then [m] else []) @ [code]) (ApiError m code)))
        else and_then (member_of d ''data'') (\<lambda>taskData.
          and_then (member_of taskData ''status'') (\<lambda>taskStatus.
            and_then (normalizedStatus js taskStatus) (\<lambda>normalized.
              Inr \<lparr> success = True, image_urls = JUndefined, video_urls = JUndefined,
                    error = None, raw_response = d, task_id = JUndefined,
                    status = JStr normalized, data = taskData \<rparr>)))))"

text \<open>
  The parameter of queryAsyncTask; \<open>q_req_json = None\<close> when \<^verbatim>\<open>req_json\<close> is left out.
\<close>

record query_params =
  q_req_key :: string
  q_task_id :: json
  q_req_json :: "string option"

text \<open>
  The request of queryAsyncTask:
  \<^verbatim>\<open>axios.post(requestUrl, bodyParams, { headers, timeout: this.timeout, validateStatus: null })\<close>.
\<close>

definition queryAsyncTask_request :: "JimengClient \<Rightarrow> query_params \<Rightarrow> request" where
  "queryAsyncTask_request c params =
     (let formattedQuery =
            formatQuery [(''Action'', ''CVSync2AsyncGetResult''), (''Version'', ''2022-08-31'')];
          bodyParams =
            JObj [(''req_key'', JStr (q_req_key params)),
                  (''task_id'', q_task_id params),
                  (''req_json'',
                     JStr (case q_req_json params of
                             None \<Rightarrow> return_url_json
                           | Some j \<Rightarrow> if j = [] then return_url_json else j))]
      in \<lparr> rq_query = formattedQuery, rq_body = bodyParams,
           rq_timeout = Some (timeout c), rq_validateStatus = AnyStatus \<rparr>)"

definition queryAsyncTask ::
  "builtins \<Rightarrow> network \<Rightarrow> JimengClient \<Rightarrow> query_params \<Rightarrow> io \<Rightarrow> ApiResponse option \<times> io" where
  "queryAsyncTask js net c params s =
     (case axios net (queryAsyncTask_request c params) s of
        (None, s') \<Rightarrow> (None, s')
      | (Some r, s') \<Rightarrow>
          (Some (catch_failure (and_then r (\<lambda>(st, d). queryAsyncTask_response js st d))), s'))"

section \<open>Image tasks: submission and the polling loop\<close>

subsection \<open>submitJimengV40Task\<close>

text \<open>
  \<^verbatim>\<open>interface JimengV40Params\<close>. \<open>None\<close> is a property left out. The three sizes are
  integers; the properties the function only copies are kept as values (\<open>JUndefined\<close> when
  left out).
\<close>

record JimengV40Params =
  v40_prompt :: string
  v40_image_urls :: "string list option"
  v40_width :: "int option"
  v40_height :: "int option"
  v40_size :: "int option"
  v40_scale :: json
  v40_force_single :: json
  v40_seed :: json
  v40_min_ratio :: json
  v40_max_ratio :: json

text \<open>The truth value of an optional number: left out and zero are false.\<close>

fun number_truthy :: "int option \<Rightarrow> bool" where
  "number_truthy None = False"
| "number_truthy (Some n) = (n \<noteq> 0)"

text \<open>The number itself, read only where \<open>number_truthy\<close> has been tested.\<close>

fun number_value :: "int option \<Rightarrow> int" where
  "number_value None = 0"
| "number_value (Some n) = n"

text \<open>\<^verbatim>\<open>if (params.x !== undefined) { cleanParams.x = params.x; }\<close>\<close>

definition optional :: "string \<Rightarrow> json \<Rightarrow> (string \<times> json) list" where
  "optional k v = (if v \<noteq> JUndefined then [(k, v)] else [])"

text \<open>
  The object \<^verbatim>\<open>cleanParams\<close> as it stands when it is handed to submitAsyncTask, its
  properties in the order they are set; the left summand is the early
  \<^verbatim>\<open>return { success: false, error: ... }\<close> for an area out of range.

  \<^verbatim>\<open>params.width * params.height\<close> is a product of floating-point numbers. For integers
  it is the exact product as long as that is at most \<open>2 ^ 53\<close> in magnitude. A product
  beyond that is rounded, to a number of the same sign and of magnitude at least \<open>2 ^ 53\<close>
  (or to an infinity): whatever the rounding, it is below 1048576 or above 16777216, and
  the error text carries the rounded product.
\<close>

definition cleanParams :: "JimengV40Params \<Rightarrow> message + (string \<times> json) list" where
  "cleanParams params =
     (let base = [(''req_key'', JStr ''jimeng_t2i_v40''), (''prompt'', JStr (v40_prompt params))];
          rest =
            (case v40_image_urls params of
               None \<Rightarrow> []
             | Some us \<Rightarrow> if length us > 0 then [(''image_urls'', JArr (map JStr us))] else [])
            @ optional ''scale'' (v40_scale params)
            @ optional ''force_single'' (v40_force_single params)
            @ optional ''seed'' (v40_seed params)
            @ optional ''min_ratio'' (v40_min_ratio params)
            @ optional ''max_ratio'' (v40_max_ratio params)
      in if number_truthy (v40_width params) \<and> number_truthy (v40_height params)
         then (let width = number_value (v40_width params);
                   height = number_value (v40_height params)
               in if \<bar>width * height\<bar> \<le> 2 ^ 53
                  then (let area = width * height
                        in if area < 1024 * 1024 \<or> area > 4096 * 4096
                           then Inl (AreaOutOfRange area)
                           else Inr (base @ [(''width'', JNum width), (''height'', JNum height)]
                                     @ rest))
                  else Inl (AreaOutOfRangeRounded width height))
         else if \<not> number_truthy (v40_width params) \<and> \<not> number_truthy (v40_height params)
                 \<and> number_truthy (v40_size params)
         then (let size = number_value (v40_size params)
               in if size < 1024 * 1024
                  then Inr (base @ [(''size'', JNum (1024 * 1024))] @ rest)
                  else if size > 4096 * 4096
                  then Inr (base @ [(''size'', JNum (4096 * 4096))] @ rest)
                  else Inr (base @ [(''size'', JNum size)] @ rest))
         else Inr (base @ rest))"

definition submitJimengV40Task ::
  "builtins \<Rightarrow> network \<Rightarrow> JimengClient \<Rightarrow> JimengV40Params \<Rightarrow> io
   \<Rightarrow> ApiResponse option \<times> io" where
  "submitJimengV40Task js net c params s =
     (case cleanParams params of
        Inl e \<Rightarrow> (Some (failure e), s)
      | Inr fs \<Rightarrow> submitAsyncTask js net c (JObj fs) s)"

subsection \<open>The polling loop of the image methods\<close>

definition maxAttempts_image :: nat where
  "maxAttempts_image = 60"

definition maxAttempts_video :: nat where
  "maxAttempts_video = 100"

definition pollingInterval :: nat where
  "pollingInterval = 5000"

text \<open>
  What one iteration of a polling loop ends in: a \<^verbatim>\<open>return\<close> from the method, an error
  thrown out of the method (the generate methods have no \<^verbatim>\<open>try\<close>), or a wait of so many
  milliseconds and then the next iteration.
\<close>

datatype step = Return ApiResponse | Throw message | Wait nat

text \<open>
  The body of the \<^verbatim>\<open>for\<close> loop of generateJimengV40Image after the query (the loops of
  generateJimengI2IV30Image, generateJimengT2IV31Image and generateJimengT2IV30Image are the
  same text with another \<^verbatim>\<open>req_key\<close> and, for the first, other error texts).
  \<open>failed_text\<close> is the text of a failed task. Inside \<^verbatim>\<open>if (result.success)\<close> the chain
  is: SUCCEEDED with data (return when \<^verbatim>\<open>imageUrls.length > 0\<close>; otherwise leave the
  chain), FAILED (return), PENDING or RUNNING (wait and \<^verbatim>\<open>continue\<close>); whatever leaves the
  chain, and every result that is no success, reaches the wait at the end of the body.
\<close>

definition image_step :: "builtins \<Rightarrow> message \<Rightarrow> json \<Rightarrow> ApiResponse \<Rightarrow> step" where
  "image_step js failed_text taskId result =
     (if success result then
        if status result = JStr ''SUCCEEDED'' \<and> truthy (data result) then
          (let imageUrls = (if truthy (read (data result) ''image_urls'')
                            then read (data result) ''image_urls'' else JArr [])
           in case greater_than_zero js (length_of imageUrls) of
                None \<Rightarrow> Throw TypeError
              | Some True \<Rightarrow>
                  Return \<lparr> success = True, image_urls = imageUrls, video_urls = JUndefined,
                           error = None, raw_response = raw_response result,
                           task_id = taskId, status = JUndefined, data = JUndefined \<rparr>
              | Some False \<Rightarrow> Wait pollingInterval)
        else if status result = JStr ''FAILED'' then
          Return \<lparr> success = False, image_urls = JUndefined, video_urls = JUndefined,
                   error = Some (error_or (error result) failed_text),
                   raw_response = raw_response result,
                   task_id = taskId, status = JUndefined, data = JUndefined \<rparr>
        else if status result = JStr ''PENDING'' \<or> status result = JStr ''RUNNING'' then
          Wait pollingInterval
        else Wait pollingInterval
      else Wait pollingInterval)"

text \<open>
  \<^verbatim>\<open>for (let i = 0; i < maxAttempts; i++) { ... }\<close> and the \<^verbatim>\<open>return\<close> after it, from
  iteration \<open>i\<close> on. The result is \<open>Some (Inr r)\<close> when the method returns \<open>r\<close>,
  \<open>Some (Inl e)\<close> when it throws \<open>e\<close>, and \<open>None\<close> when it never returns.
\<close>

function pollImage ::
  "builtins \<Rightarrow> network \<Rightarrow> JimengClient \<Rightarrow> string \<Rightarrow> message \<Rightarrow> message \<Rightarrow> json \<Rightarrow> nat \<Rightarrow> io
   \<Rightarrow> (message + ApiResponse) option \<times> io" where
  "pollImage js net c req_key failed_text timeout_text taskId i s =
     (if i < maxAttempts_image then
        (case queryAsyncTask js net c
                \<lparr> q_req_key = req_key, q_task_id = taskId, q_req_json = Some return_url_json \<rparr>
                (emit (Poll (i + 1) maxAttempts_image) s) of
           (None, s') \<Rightarrow> (None, s')
         | (Some result, s') \<Rightarrow>
             (case image_step js failed_text taskId result of
                Return r \<Rightarrow> (Some (Inr r), s')
              | Throw e \<Rightarrow> (Some (Inl e), s')
              | Wait ms \<Rightarrow>
                  pollImage js net c req_key failed_text timeout_text taskId (Suc i)
                    (emit (Sleep ms) s')))
      else (Some (Inr ((failure timeout_text)\<lparr> task_id := taskId \<rparr>)), s))"
  by pat_completeness auto
termination
  by (relation "measure (\<lambda>(js, net, c, req_key, failed_text, timeout_text, taskId, i, s).
        maxAttempts_image - i)") auto

declare pollImage.simps [simp del]

subsection \<open>generateJimengV40Image\<close>

text \<open>
  Between the submission and the loop the method logs
  \<^verbatim>\<open>`...: ${taskResult.task_id}`\<close>: a task id that cannot be converted to a string
  makes the method throw there.
\<close>

definition generateJimengV40Image ::
  "builtins \<Rightarrow> network \<Rightarrow> JimengClient \<Rightarrow> JimengV40Params \<Rightarrow> io
   \<Rightarrow> (message + ApiResponse) option \<times> io" where
  "generateJimengV40Image js net c params s =
     (case submitJimengV40Task js net c params s of
        (None, s') \<Rightarrow> (None, s')
      | (Some taskResult, s') \<Rightarrow>
          if \<not> success taskResult \<or> \<not> truthy (task_id taskResult)
          then (Some (Inr (failure (error_or (error taskResult) SubmitFailed))), s')
          else if ToString js (task_id taskResult) = None
          then (Some (Inl TypeError), s')
          else pollImage js net c ''jimeng_t2i_v40'' ImageTaskFailed ImagePollTimeout
                 (task_id taskResult) 0 s')"

section \<open>Video tasks\<close>

subsection \<open>getVideoTaskResult\<close>

text \<open>The \<^verbatim>\<open>switch (taskStatus)\<close> of getVideoTaskResult.\<close>

definition normalizedStatus_video :: "builtins \<Rightarrow> json \<Rightarrow> message + string" where
  "normalizedStatus_video js taskStatus =
     (case taskStatus of
        JStr t \<Rightarrow>
          Inr (if t = ''in_queue'' then ''PENDING''
               else if t = ''processing'' then ''RUNNING''
               else if t = ''done'' then ''SUCCEEDED''
               else if t = ''fail'' then ''FAILED''
               else toUpperCase js t)
      | _ \<Rightarrow> Inl TypeError)"

text \<open>
  The array \<^verbatim>\<open>videoUrls\<close> when it is returned: first what the inner
  \<^verbatim>\<open>try { JSON.parse(taskData.resp_data) ... } catch\<close> assigns (nothing when the parse or the
  read of \<^verbatim>\<open>urls\<close> throws), then the \<^verbatim>\<open>push\<close> of \<^verbatim>\<open>taskData.video_url\<close>.
\<close>

definition urls_of_resp_data :: "builtins \<Rightarrow> json \<Rightarrow> json list" where
  "urls_of_resp_data js taskData =
     (case read taskData ''resp_data'' of
        JStr t \<Rightarrow>
          if t = [] then []
          else (case JSON_parse js t of
                  None \<Rightarrow> []
                | Some respData \<Rightarrow>
                    (case member_of respData ''urls'' of
                       Inl e \<Rightarrow> []
                     | Inr (JArr us) \<Rightarrow> us
                     | Inr v \<Rightarrow> []))
      | v \<Rightarrow> [])"

definition videoUrls :: "builtins \<Rightarrow> json \<Rightarrow> json list" where
  "videoUrls js taskData =
     urls_of_resp_data js taskData
     @ (case read taskData ''video_url'' of
          JStr v \<Rightarrow> if v = [] then [] else [JStr v]
        | v \<Rightarrow> [])"

text \<open>
  The handling of the response in the \<^verbatim>\<open>try\<close> block. The error text of the result for
  the code 50411 is \<^verbatim>\<open>`...: ${data.message}`\<close>, and the error for any other code but
  10000 is \<^verbatim>\<open>new Error(`...: ${data.message} (...: ${data.code})`)\<close>.
\<close>

definition getVideoTaskResult_response :: "builtins \<Rightarrow> int \<Rightarrow> json \<Rightarrow> message + ApiResponse" where
  "getVideoTaskResult_response js st d =
     (if st = 200 then
        and_then (member_of d ''code'') (\<lambda>code.
          if code \<noteq> JNum 10000
          then
            if code = JNum 50411
            then and_then (member_of d ''message'') (\<lambda>m.
              if ToString js m = None then Inl TypeError
              else Inr \<lparr> success = False, image_urls = JUndefined, video_urls = JUndefined,
                         error = Some (ContentSafety m), raw_response = d,
                         task_id = JUndefined, status = JStr ''FAILED'', data = JUndefined \<rparr>)
            else and_then (member_of d ''message'') (\<lambda>m.
              Inl (interpolated js [m, code] (BusinessError m code)))
          else and_then (member_of d ''data'') (\<lambda>taskData.
            and_then (member_of taskData ''status'') (\<lambda>taskStatus.
              and_then (normalizedStatus_video js taskStatus) (\<lambda>normalized.
                Inr \<lparr> success = True, image_urls = JUndefined,
                      video_urls = JArr (videoUrls js taskData),
                      error = None, raw_response = d, task_id = JUndefined,
                      status = JStr normalized, data = JUndefined \<rparr>))))
      else Inl (HttpErrorDetail st d))"

text \<open>
  The request of getVideoTaskResult:
  \<^verbatim>\<open>axios({ url: requestUrl, method: 'POST', headers: headers, data: formattedBody })\<close>,
  which sets neither \<^verbatim>\<open>timeout\<close> nor \<^verbatim>\<open>validateStatus\<close>.
\<close>

definition getVideoTaskResult_request :: "json \<Rightarrow> string \<Rightarrow> request" where
  "getVideoTaskResult_request taskId reqKey =
     (let formattedQuery =
            formatQuery [(''Action'', ''CVSync2AsyncGetResult''), (''Version'', ''2022-08-31'')];
          bodyParams = JObj [(''req_key'', JStr reqKey), (''task_id'', taskId)]
      in \<lparr> rq_query = formattedQuery, rq_body = bodyParams,
           rq_timeout = None, rq_validateStatus = Default2xx \<rparr>)"

text \<open>
  The \<^verbatim>\<open>try\<close> block of getVideoTaskResult: it returns a result (\<open>Some (Inr r)\<close>), throws
  (\<open>Some (Inl e)\<close>), or waits for its request without end (\<open>None\<close>).
\<close>

definition getVideoTaskResult_try ::
  "builtins \<Rightarrow> network \<Rightarrow> json \<Rightarrow> string \<Rightarrow> io \<Rightarrow> (message + ApiResponse) option \<times> io" where
  "getVideoTaskResult_try js net taskId reqKey s =
     (case axios net (getVideoTaskResult_request taskId reqKey) s of
        (None, s') \<Rightarrow> (None, s')
      | (Some r, s') \<Rightarrow> (Some (and_then r (\<lambda>(st, d). getVideoTaskResult_response js st d)), s'))"

text \<open>
  \<^verbatim>\<open>const retries = 1; let retryCount = 0; while (retryCount <= retries) { try ... catch ... }\<close>
  from the value \<open>retryCount\<close> on: a caught error counts, gives up when the count exceeds
  \<open>retries\<close>, and otherwise waits five seconds and tries again.
\<close>

function getVideoTaskResult_loop ::
  "builtins \<Rightarrow> network \<Rightarrow> json \<Rightarrow> string \<Rightarrow> nat \<Rightarrow> io \<Rightarrow> ApiResponse option \<times> io" where
  "getVideoTaskResult_loop js net taskId reqKey retryCount s =
     (if retryCount \<le> 1 then
        (case getVideoTaskResult_try js net taskId reqKey s of
           (None, s') \<Rightarrow> (None, s')
         | (Some (Inr r), s') \<Rightarrow> (Some r, s')
         | (Some (Inl e), s') \<Rightarrow>
             if Suc retryCount > 1 then (Some (failure e), s')
             else getVideoTaskResult_loop js net taskId reqKey (Suc retryCount)
                    (emit (Sleep 5000) s'))
      else (Some (failure UnknownError), s))"
  by pat_completeness auto
termination
  by (relation "measure (\<lambda>(js, net, taskId, reqKey, retryCount, s). 2 - retryCount)") auto

declare getVideoTaskResult_loop.simps [simp del]

definition getVideoTaskResult ::
  "builtins \<Rightarrow> network \<Rightarrow> json \<Rightarrow> string \<Rightarrow> io \<Rightarrow> ApiResponse option \<times> io" where
  "getVideoTaskResult js net taskId reqKey s = getVideoTaskResult_loop js net taskId reqKey 0 s"

subsection \<open>The polling loop of the video methods\<close>

text \<open>
  The body of the \<^verbatim>\<open>for\<close> loop of generateVideo after the query. The loop of
  generateI2VVideo is the same text but for one more test, \<^verbatim>\<open>result.status === 'in_queue'\<close>,
  in the condition of the waiting branch: \<open>in_queue_waits\<close> is true for it. The first
  condition of the chain is
  \<^verbatim>\<open>(status === 'SUCCEEDED' || status === 'done') && video_urls && video_urls.length > 0\<close>.
\<close>

definition video_step :: "builtins \<Rightarrow> bool \<Rightarrow> json \<Rightarrow> ApiResponse \<Rightarrow> step" where
  "video_step js in_queue_waits taskId result =
     (if success result then
        (case (if (status result = JStr ''SUCCEEDED'' \<or> status result = JStr ''done'')
                  \<and> truthy (video_urls result)
               then greater_than_zero js (length_of (video_urls result))
               else Some False) of
           None \<Rightarrow> Throw TypeError
         | Some True \<Rightarrow>
             Return \<lparr> success = True, image_urls = JUndefined, video_urls = video_urls result,
                      error = None, raw_response = raw_response result,
                      task_id = taskId, status = JUndefined, data = JUndefined \<rparr>
         | Some False \<Rightarrow>
             if status result = JStr ''FAILED'' then
               Return \<lparr> success = False, image_urls = JUndefined, video_urls = JUndefined,
                        error = Some VideoTaskFailed, raw_response = raw_response result,
                        task_id = taskId, status = JUndefined, data = JUndefined \<rparr>
             else if status result = JStr ''PENDING'' \<or> status result = JStr ''RUNNING''
                     \<or> (in_queue_waits \<and> status result = JStr ''in_queue'') then
               Wait pollingInterval
             else Wait pollingInterval)
      else Wait pollingInterval)"

function pollVideo ::
  "builtins \<Rightarrow> network \<Rightarrow> bool \<Rightarrow> json \<Rightarrow> string \<Rightarrow> nat \<Rightarrow> io
   \<Rightarrow> (message + ApiResponse) option \<times> io" where
  "pollVideo js net in_queue_waits taskId reqKey i s =
     (if i < maxAttempts_video then
        (case getVideoTaskResult js net taskId reqKey
                (emit (Poll (i + 1) maxAttempts_video) s) of
           (None, s') \<Rightarrow> (None, s')
         | (Some result, s') \<Rightarrow>
             (case video_step js in_queue_waits taskId result of
                Return r \<Rightarrow> (Some (Inr r), s')
              | Throw e \<Rightarrow> (Some (Inl e), s')
              | Wait ms \<Rightarrow>
                  pollVideo js net in_queue_waits taskId reqKey (Suc i) (emit (Sleep ms) s')))
      else (Some (Inr ((failure VideoPollTimeout)\<lparr> task_id := taskId \<rparr>)), s))"
  by pat_completeness auto
termination
  by (relation "measure (\<lambda>(js, net, in_queue_waits, taskId, reqKey, i, s).
        maxAttempts_video - i)") auto

declare pollVideo.simps [simp del]

subsection \<open>submitI2VTask\<close>

text \<open>\<^verbatim>\<open>interface GenerateI2VParams\<close>; \<open>None\<close> is a property left out.\<close>

record GenerateI2VParams =
  i2v_image_url :: "string option"
  i2v_image_urls :: "string list option"
  i2v_prompt :: "string option"
  i2v_req_key :: "string option"
  i2v_aspect_ratio :: "string option"
  i2v_region :: "string option"

text \<open>\<^verbatim>\<open>x || d\<close> for an optional string \<open>x\<close>.\<close>

definition string_or :: "string option \<Rightarrow> string \<Rightarrow> string" where
  "string_or x d = (case x of None \<Rightarrow> d | Some t \<Rightarrow> if t = [] then d else t)"

text \<open>The local \<^verbatim>\<open>imageUrls\<close>; the left summand is the \<^verbatim>\<open>throw\<close> of the last branch.\<close>

definition imageUrls :: "GenerateI2VParams \<Rightarrow> message + string list" where
  "imageUrls params =
     (let from_image_url =
            (case i2v_image_url params of
               None \<Rightarrow> Inl MissingImage
             | Some u \<Rightarrow> if u \<noteq> [] then Inr [u] else Inl MissingImage)
      in case i2v_image_urls params of
           None \<Rightarrow> from_image_url
         | Some us \<Rightarrow> if length us > 0 then Inr us else from_image_url)"

definition bodyParams :: "GenerateI2VParams \<Rightarrow> string list \<Rightarrow> json" where
  "bodyParams params urls =
     JObj ([(''req_key'', JStr (string_or (i2v_req_key params) ''jimeng_vgfm_i2v_l20'')),
            (''image_urls'', JArr (map JStr urls)),
            (''aspect_ratio'', JStr (string_or (i2v_aspect_ratio params) ''16:9''))]
           @ (case i2v_prompt params of
                None \<Rightarrow> []
              | Some t \<Rightarrow> if t = [] then [] else [(''prompt'', JStr t)]))"

text \<open>\<^verbatim>\<open>response.data.data?.task_id\<close>\<close>

definition optional_chain :: "json \<Rightarrow> string \<Rightarrow> json" where
  "optional_chain v k = (case v of JUndefined \<Rightarrow> JUndefined | JNull \<Rightarrow> JUndefined | w \<Rightarrow> read w k)"

text \<open>
  The handling of the response in the \<^verbatim>\<open>try\<close> block. The error for a response that
  carries neither status nor code 10000 is
  \<^verbatim>\<open>new Error(`...: ${message || '...'}, ...: ${code || status || '...'}`)\<close>.
\<close>

definition submitI2VTask_response :: "builtins \<Rightarrow> int \<Rightarrow> json \<Rightarrow> message + ApiResponse" where
  "submitI2VTask_response js st d =
     (if st = 200 then
        and_then (member_of d ''status'') (\<lambda>dstatus.
          and_then (member_of d ''code'') (\<lambda>code.
            if dstatus = JNum 10000 \<or> code = JNum 10000
            then and_then (member_of d ''data'') (\<lambda>dd.
              let taskId = optional_chain dd ''task_id''
              in if \<not> truthy taskId then Inl NoTaskId
                 else Inr \<lparr> success = True, image_urls = JUndefined, video_urls = JUndefined,
                            error = None, raw_response = d, task_id = taskId,
                            status = JUndefined, data = JUndefined \<rparr>)
            else and_then (member_of d ''message'') (\<lambda>m.
              Inl (interpolated js
                     ((if truthy m then [m] else [])
                      @ (if truthy code then [code] else if truthy dstatus then [dstatus] else []))
                     (ApiErrorI2V m code dstatus)))))
      else Inl (HttpErrorDetail st d))"

text \<open>\<^verbatim>\<open>String.prototype.includes\<close>\<close>

fun includes_str :: "string \<Rightarrow> string \<Rightarrow> bool" where
  "includes_str [] needle = (needle = [])"
| "includes_str (x # xs) needle = (take (length needle) (x # xs) = needle \<or> includes_str xs needle)"

definition image_problem :: "string \<Rightarrow> bool" where
  "image_problem t =
     (includes_str t ''Image Decode Error'' \<or> includes_str t ''image format unsupported''
      \<or> includes_str t ''image url'')"

text \<open>
  The test of the \<^verbatim>\<open>catch\<close> block of submitI2VTask on the text of the error caught, for the
  errors its \<^verbatim>\<open>try\<close> block throws. The three phrases are made of letters and single
  spaces; the fixed parts of the texts hold none of them, and none can lie across the end
  of a fixed part, so a phrase occurs exactly when it occurs in a part that comes from
  outside: the transport's text, the stringified response, or the values the template
  interpolates (\<^verbatim>\<open>message || ...\<close> and \<^verbatim>\<open>code || status || ...\<close>), each of which
  has a text when the error has been built.
\<close>

definition printed_problem :: "builtins \<Rightarrow> json \<Rightarrow> bool" where
  "printed_problem js v = (case ToString js v of Some t \<Rightarrow> image_problem t | None \<Rightarrow> False)"

fun image_format_error :: "builtins \<Rightarrow> message \<Rightarrow> bool" where
  "image_format_error js (Transport t) = image_problem t"
| "image_format_error js (HttpErrorDetail st d) = image_problem (JSON_stringify js d)"
| "image_format_error js (ApiErrorI2V m code dstatus) =
     ((truthy m \<and> printed_problem js m)
      \<or> (truthy code \<and> printed_problem js code)
      \<or> (\<not> truthy code \<and> truthy dstatus \<and> printed_problem js dstatus))"
| "image_format_error js e = False"

text \<open>
  The request of submitI2VTask:
  \<^verbatim>\<open>axios({ url: requestUrl, method: 'POST', headers: headers, data: formattedBody })\<close>.
\<close>

definition submitI2VTask_request :: "GenerateI2VParams \<Rightarrow> string list \<Rightarrow> request" where
  "submitI2VTask_request params urls =
     (let formattedQuery =
            formatQuery [(''Action'', ''CVSync2AsyncSubmitTask''), (''Version'', ''2022-08-31'')]
      in \<lparr> rq_query = formattedQuery, rq_body = bodyParams params urls,
           rq_timeout = None, rq_validateStatus = Default2xx \<rparr>)"

text \<open>
  The \<^verbatim>\<open>try\<close> block of submitI2VTask: the image URLs are settled first, then the one
  request is sent.
\<close>

definition submitI2VTask_try ::
  "builtins \<Rightarrow> network \<Rightarrow> GenerateI2VParams \<Rightarrow> io
   \<Rightarrow> (message + ApiResponse) option \<times> io" where
  "submitI2VTask_try js net params s =
     (case imageUrls params of
        Inl e \<Rightarrow> (Some (Inl e), s)
      | Inr urls \<Rightarrow>
          (case axios net (submitI2VTask_request params urls) s of
             (None, s') \<Rightarrow> (None, s')
           | (Some r, s') \<Rightarrow>
               (Some (and_then r (\<lambda>(st, d). submitI2VTask_response js st d)), s')))"

text \<open>
  \<^verbatim>\<open>while (retryCount <= retries) { try ... catch ... }\<close> with \<^verbatim>\<open>retries = 1\<close>, from the
  value \<open>retryCount\<close> on, and the \<^verbatim>\<open>return\<close> after the loop (reached through
  \<^verbatim>\<open>break\<close>, with the last error caught).
\<close>

function submitI2VTask_loop ::
  "builtins \<Rightarrow> network \<Rightarrow> GenerateI2VParams \<Rightarrow> nat \<Rightarrow> message option \<Rightarrow> io
   \<Rightarrow> ApiResponse option \<times> io" where
  "submitI2VTask_loop js net params retryCount lastError s =
     (if retryCount \<le> 1 then
        (case submitI2VTask_try js net params s of
           (None, s') \<Rightarrow> (None, s')
         | (Some (Inr r), s') \<Rightarrow> (Some r, s')
         | (Some (Inl e), s') \<Rightarrow>
             if image_format_error js e then (Some (failure (ImageFormat e)), s')
             else if retryCount < 1
             then submitI2VTask_loop js net params (Suc retryCount) (Some e)
                    (emit (Sleep (60 * 1000)) s')
             else (Some (failure e), s'))
      else (Some (failure (case lastError of Some e \<Rightarrow> e | None \<Rightarrow> MaxRetries)), s))"
  by pat_completeness auto
termination
  by (relation "measure (\<lambda>(js, net, params, retryCount, lastError, s). 2 - retryCount)") auto

declare submitI2VTask_loop.simps [simp del]

definition submitI2VTask ::
  "builtins \<Rightarrow> network \<Rightarrow> GenerateI2VParams \<Rightarrow> io \<Rightarrow> ApiResponse option \<times> io" where
  "submitI2VTask js net params s = submitI2VTask_loop js net params 0 None s"

section \<open>Reading a trace\<close>

text \<open>
  The number of polling attempts announced in a piece of trace, the requests sent in it,
  and the waits in it, in order.
\<close>

definition polls :: "event list \<Rightarrow> nat" where
  "polls es = length (filter (\<lambda>e. case e of Poll i n \<Rightarrow> True | Post rq \<Rightarrow> False | Sleep ms \<Rightarrow> False) es)"

definition posts :: "event list \<Rightarrow> request list" where
  "posts es = concat (map (\<lambda>e. case e of Post rq \<Rightarrow> [rq] | Poll i n \<Rightarrow> [] | Sleep ms \<Rightarrow> []) es)"

definition sleeps :: "event list \<Rightarrow> nat list" where
  "sleeps es = concat (map (\<lambda>e. case e of Sleep ms \<Rightarrow> [ms] | Poll i n \<Rightarrow> [] | Post rq \<Rightarrow> []) es)"

section \<open>Example inputs\<close>

text \<open>
  A client as the constructor builds it from an access key and a secret key alone, the state
  of a client that has sent nothing yet, and replies of the provider: \<open>status_reply t\<close> is a
  query answered with status 200, code 10000 and task status \<open>t\<close>, \<open>urls_reply t us\<close> the
  same with the image URLs \<open>us\<close>, \<open>task_reply\<close> a submission accepted under the task id
  \<open>T1\<close>, and \<open>moderation_reply\<close> a query answered with the content-safety code 50411.
\<close>

definition example_client :: JimengClient where
  "example_client =
     \<lparr> accessKey = ''AK'', secretKey = ''SK'', endpoint = ''https://visual.volcengineapi.com'',
       host = ''visual.volcengineapi.com'', region = ''cn-north-1'', service = ''cv'',
       debug = False, timeout = 30000, retries = 3 \<rparr>"

definition fresh :: io where
  "fresh = \<lparr> sent = 0, trace = [] \<rparr>"

definition status_reply :: "string \<Rightarrow> http_result" where
  "status_reply t =
     Response 200 (JObj [(''code'', JNum 10000), (''data'', JObj [(''status'', JStr t)])])"

definition urls_reply :: "string \<Rightarrow> string list \<Rightarrow> http_result" where
  "urls_reply t us =
     Response 200 (JObj [(''code'', JNum 10000),
                         (''data'', JObj [(''status'', JStr t),
                                          (''image_urls'', JArr (map JStr us))])])"

definition task_reply :: http_result where
  "task_reply =
     Response 200 (JObj [(''code'', JNum 10000), (''data'', JObj [(''task_id'', JStr ''T1'')])])"

definition moderation_reply :: http_result where
  "moderation_reply =
     Response 200 (JObj [(''code'', JNum 50411), (''message'', JStr ''Post Img Risk Not Pass'')])"

text \<open>
  Parameters of generateJimengV40Image with a prompt and nothing else, and a network that
  accepts the submission, answers the first query with status \<^verbatim>\<open>done\<close> and an empty list of
  image URLs, and every later query with \<^verbatim>\<open>done\<close> and one URL.
\<close>

definition example_params :: JimengV40Params where
  "example_params =
     \<lparr> v40_prompt = ''a cat'', v40_image_urls = None, v40_width = None, v40_height = None,
       v40_size = None, v40_scale = JUndefined, v40_force_single = JUndefined,
       v40_seed = JUndefined, v40_min_ratio = JUndefined, v40_max_ratio = JUndefined \<rparr>"

definition empty_then_urls :: network where
  "empty_then_urls n =
     (if n = 0 then task_reply
      else if n = 1 then urls_reply ''done'' []
      else urls_reply ''done'' [''https://x/a.png''])"

text \<open>
  For the video methods: a \<^verbatim>\<open>resp_data\<close> string, stand-ins for the built-in functions that
  know this one string (they print a string as it is and every other value as the empty
  text, leave a string outside ASCII as it is and compare nothing but numbers), parameters
  of submitI2VTask with every property left out, and a reply to a video query that carries
  both the \<^verbatim>\<open>resp_data\<close> string and a \<^verbatim>\<open>video_url\<close>.
\<close>

definition example_resp_data :: string where
  "example_resp_data =
     ''{'' @ [CHR 0x22] @ ''urls'' @ [CHR 0x22] @ '':['' @ [CHR 0x22] @ ''https://x/v1.mp4''
       @ [CHR 0x22] @ '']}''"

definition example_builtins :: builtins where
  "example_builtins =
     \<lparr> JSON_parse = (\<lambda>t. if t = example_resp_data
                          then Some (JObj [(''urls'', JArr [JStr ''https://x/v1.mp4''])])
                          else None),
       JSON_stringify = (\<lambda>v. ''{}''),
       ToString = (\<lambda>v. case v of JStr t \<Rightarrow> Some t | other \<Rightarrow> Some []),
       String_toUpperCase = (\<lambda>t. t),
       GreaterThanZero = (\<lambda>v. None) \<rparr>"

definition example_i2v :: GenerateI2VParams where
  "example_i2v =
     \<lparr> i2v_image_url = None, i2v_image_urls = None, i2v_prompt = None, i2v_req_key = None,
       i2v_aspect_ratio = None, i2v_region = None \<rparr>"

definition video_reply :: http_result where
  "video_reply =
     Response 200 (JObj [(''code'', JNum 10000),
                         (''data'', JObj [(''status'', JStr ''done''),
                                          (''resp_data'', JStr example_resp_data),
                                          (''video_url'', JStr ''https://x/v2.mp4'')])])"

section \<open>Facts about traces and the loops\<close>

lemma polls_simps:
  "polls [] = 0" "polls (Poll i n # es) = Suc (polls es)" "polls (Post rq # es) = polls es"
  "polls (Sleep ms # es) = polls es" "polls (es @ fs) = polls es + polls fs"
  by (simp_all add: polls_def)

lemma posts_simps:
  "posts [] = []" "posts (Poll i n # es) = posts es" "posts (Post rq # es) = rq # posts es"
  "posts (Sleep ms # es) = posts es" "posts (es @ fs) = posts es @ posts fs"
  by (simp_all add: posts_def)

lemma sleeps_simps:
  "sleeps [] = []" "sleeps (Poll i n # es) = sleeps es" "sleeps (Post rq # es) = sleeps es"
  "sleeps (Sleep ms # es) = ms # sleeps es" "sleeps (es @ fs) = sleeps es @ sleeps fs"
  by (simp_all add: sleeps_def)

lemma settle_any:
  "rq_validateStatus rq = AnyStatus \<Longrightarrow> settle rq (Response st d) = Some (Inr (st, d))"
  by (simp add: settle_def)

lemma settle_200: "settle rq (Response 200 d) = Some (Inr (200, d))"
  by (simp add: settle_def)

lemma settle_None:
  "settle rq r = None \<longleftrightarrow> r = Silence \<and> (rq_timeout rq = None \<or> rq_timeout rq = Some 0)"
  by (simp add: settle_def split: http_result.splits option.splits)

lemma queryAsyncTask_eq:
  "queryAsyncTask js net c params s =
     (map_option (\<lambda>r. catch_failure (and_then r (\<lambda>(st, d). queryAsyncTask_response js st d)))
        (settle (queryAsyncTask_request c params) (net (sent s))),
      \<lparr> sent = Suc (sent s), trace = trace s @ [Post (queryAsyncTask_request c params)] \<rparr>)"
  by (simp add: queryAsyncTask_def axios_def split: option.splits)




lemma pollImage_all_wait:
  assumes "\<And>n. sent s \<le> n \<Longrightarrow> n < sent s + (maxAttempts_image - i) \<Longrightarrow>
     \<exists>result. fst (queryAsyncTask js net c
                      \<lparr> q_req_key = rk, q_task_id = tid, q_req_json = Some return_url_json \<rparr>
                      \<lparr> sent = n, trace = [] \<rparr>) = Some result
             \<and> image_step js ft tid result = Wait pollingInterval"
  shows "\<exists>es. pollImage js net c rk ft tt tid i s
            = (Some (Inr ((failure tt)\<lparr> task_id := tid \<rparr>)),
               \<lparr> sent = sent s + (maxAttempts_image - i), trace = trace s @ es \<rparr>)
          \<and> polls es = maxAttempts_image - i
          \<and> sleeps es = replicate (maxAttempts_image - i) pollingInterval"
  using assms
proof (induction js net c rk ft tt tid i s rule: pollImage.induct)
  case (1 js net c rk ft tt tid i s)
  let ?qp = "\<lparr> q_req_key = rk, q_task_id = tid, q_req_json = Some return_url_json \<rparr>"
  let ?rq = "queryAsyncTask_request c ?qp"
  let ?s1 = "emit (Poll (i + 1) maxAttempts_image) s"
  show ?case
  proof (cases "i < maxAttempts_image")
    case False
    then have "pollImage js net c rk ft tt tid i s
        = (Some (Inr ((failure tt)\<lparr> task_id := tid \<rparr>)), s)"
      by (simp add: pollImage.simps)
    then show ?thesis
      using False by (intro exI [of _ "[]"]) (simp add: polls_simps sleeps_simps)
  next
    case True
    have "sent s \<le> sent s" and "sent s < sent s + (maxAttempts_image - i)"
      using True by simp_all
    from "1.prems" [OF this] obtain result where
      r: "fst (queryAsyncTask js net c ?qp \<lparr> sent = sent s, trace = [] \<rparr>) = Some result"
      and w: "image_step js ft tid result = Wait pollingInterval"
      by blast
    let ?s' = "\<lparr> sent = Suc (sent s), trace = trace s @ [Poll (i + 1) maxAttempts_image, Post ?rq] \<rparr>"
    have q: "queryAsyncTask js net c ?qp ?s1 = (Some result, ?s')"
      using r by (simp add: queryAsyncTask_eq emit_def)
    let ?s2 = "emit (Sleep pollingInterval) ?s'"
    have unfold: "pollImage js net c rk ft tt tid i s
        = pollImage js net c rk ft tt tid (Suc i) ?s2"
      using True q w by (subst pollImage.simps) simp
    have sent2: "sent ?s2 = Suc (sent s)"
      by (simp add: emit_def)
    have "\<exists>es. pollImage js net c rk ft tt tid (Suc i) ?s2
            = (Some (Inr ((failure tt)\<lparr> task_id := tid \<rparr>)),
               \<lparr> sent = sent ?s2 + (maxAttempts_image - Suc i), trace = trace ?s2 @ es \<rparr>)
          \<and> polls es = maxAttempts_image - Suc i
          \<and> sleeps es = replicate (maxAttempts_image - Suc i) pollingInterval"
    proof (rule "1.IH" [OF True q [symmetric] refl w])
      fix n
      assume "sent ?s2 \<le> n" and "n < sent ?s2 + (maxAttempts_image - Suc i)"
      then show "\<exists>result. fst (queryAsyncTask js net c ?qp \<lparr> sent = n, trace = [] \<rparr>) = Some result
             \<and> image_step js ft tid result = Wait pollingInterval"
        using True sent2 by (intro "1.prems") simp_all
    qed
    then obtain es where
      run: "pollImage js net c rk ft tt tid (Suc i) ?s2
            = (Some (Inr ((failure tt)\<lparr> task_id := tid \<rparr>)),
               \<lparr> sent = sent ?s2 + (maxAttempts_image - Suc i), trace = trace ?s2 @ es \<rparr>)"
      and p: "polls es = maxAttempts_image - Suc i"
      and sl: "sleeps es = replicate (maxAttempts_image - Suc i) pollingInterval"
      by blast
    have suc: "maxAttempts_image - i = Suc (maxAttempts_image - Suc i)"
      using True by simp
    let ?es = "[Poll (i + 1) maxAttempts_image, Post ?rq, Sleep pollingInterval] @ es"
    have "pollImage js net c rk ft tt tid i s
            = (Some (Inr ((failure tt)\<lparr> task_id := tid \<rparr>)),
               \<lparr> sent = sent s + (maxAttempts_image - i), trace = trace s @ ?es \<rparr>)"
      using unfold run suc by (simp add: emit_def)
    moreover have "polls ?es = maxAttempts_image - i"
      using p suc by (simp add: polls_simps)
    moreover have "sleeps ?es = replicate (maxAttempts_image - i) pollingInterval"
      using sl suc by (simp add: sleeps_simps)
    ultimately show ?thesis by blast
  qed
qed

lemma getVideoTaskResult_try_eq:
  "getVideoTaskResult_try js net tid rk s =
     (map_option (\<lambda>r. and_then r (\<lambda>(st, d). getVideoTaskResult_response js st d))
        (settle (getVideoTaskResult_request tid rk) (net (sent s))),
      \<lparr> sent = Suc (sent s), trace = trace s @ [Post (getVideoTaskResult_request tid rk)] \<rparr>)"
  by (simp add: getVideoTaskResult_try_def axios_def split: option.splits)

lemma getVideoTaskResult_loop_1:
  "getVideoTaskResult_loop js net tid rk (Suc 0) s =
     (case getVideoTaskResult_try js net tid rk s of
        (None, s') \<Rightarrow> (None, s')
      | (Some (Inr r), s') \<Rightarrow> (Some r, s')
      | (Some (Inl e), s') \<Rightarrow> (Some (failure e), s'))"
  by (subst getVideoTaskResult_loop.simps) (simp split: prod.splits sum.splits option.splits)

lemma getVideoTaskResult_loop_0:
  "getVideoTaskResult_loop js net tid rk 0 s =
     (case getVideoTaskResult_try js net tid rk s of
        (None, s') \<Rightarrow> (None, s')
      | (Some (Inr r), s') \<Rightarrow> (Some r, s')
      | (Some (Inl e), s') \<Rightarrow>
          getVideoTaskResult_loop js net tid rk (Suc 0) (emit (Sleep 5000) s'))"
  by (subst getVideoTaskResult_loop.simps) (simp split: prod.splits sum.splits option.splits)

lemma getVideoTaskResult_eq:
  "getVideoTaskResult js net tid rk s =
     (let rq = getVideoTaskResult_request tid rk;
          handle = (\<lambda>r. map_option (\<lambda>x. and_then x (\<lambda>(st, d). getVideoTaskResult_response js st d))
                          (settle rq r));
          s1 = \<lparr> sent = Suc (sent s), trace = trace s @ [Post rq] \<rparr>;
          s2 = \<lparr> sent = Suc (Suc (sent s)), trace = trace s @ [Post rq, Sleep 5000, Post rq] \<rparr>
      in case handle (net (sent s)) of
           None \<Rightarrow> (None, s1)
         | Some (Inr r) \<Rightarrow> (Some r, s1)
         | Some (Inl e) \<Rightarrow>
            (case handle (net (Suc (sent s))) of
               None \<Rightarrow> (None, s2)
             | Some (Inr r) \<Rightarrow> (Some r, s2)
             | Some (Inl e') \<Rightarrow> (Some (failure e'), s2)))"
  by (simp add: getVideoTaskResult_def getVideoTaskResult_loop_0 getVideoTaskResult_loop_1
      getVideoTaskResult_try_eq emit_def Let_def split: sum.splits option.splits)

lemma getVideoTaskResult_fst_sent:
  "fst (getVideoTaskResult js net tid rk s)
     = fst (getVideoTaskResult js net tid rk \<lparr> sent = sent s, trace = [] \<rparr>)"
  by (simp add: getVideoTaskResult_eq Let_def split: sum.splits option.splits)

lemma getVideoTaskResult_response_video_urls:
  "getVideoTaskResult_response js st d = Inr r
   \<Longrightarrow> video_urls r = JUndefined \<or> (\<exists>xs. video_urls r = JArr xs)"
  by (auto simp: getVideoTaskResult_response_def and_then_def split: if_splits sum.splits)

lemma getVideoTaskResult_runs:
  "\<exists>es out. getVideoTaskResult js net tid rk s
            = (out, \<lparr> sent = sent s + length (posts es), trace = trace s @ es \<rparr>)
     \<and> polls es = 0 \<and> 1 \<le> length (posts es) \<and> length (posts es) \<le> 2
     \<and> sleeps es = replicate (length (posts es) - 1) pollingInterval
     \<and> (out = None \<longrightarrow> net (sent s + length (posts es) - 1) = Silence)
     \<and> (\<forall>r. out = Some r \<longrightarrow> video_urls r = JUndefined \<or> (\<exists>xs. video_urls r = JArr xs))"
proof -
  let ?rq = "getVideoTaskResult_request tid rk"
  define h where "h = (\<lambda>r. map_option (\<lambda>x. and_then x (\<lambda>(st, d). getVideoTaskResult_response js st d))
                   (settle ?rq r))"
  let ?one = "[Post ?rq]"
  let ?two = "[Post ?rq, Sleep 5000, Post ?rq]"
  have eq: "getVideoTaskResult js net tid rk s =
      (case h (net (sent s)) of
         None \<Rightarrow> (None, \<lparr> sent = sent s + length (posts ?one), trace = trace s @ ?one \<rparr>)
       | Some (Inr r) \<Rightarrow> (Some r, \<lparr> sent = sent s + length (posts ?one), trace = trace s @ ?one \<rparr>)
       | Some (Inl e) \<Rightarrow>
          (case h (net (Suc (sent s))) of
             None \<Rightarrow> (None, \<lparr> sent = sent s + length (posts ?two), trace = trace s @ ?two \<rparr>)
           | Some (Inr r) \<Rightarrow>
               (Some r, \<lparr> sent = sent s + length (posts ?two), trace = trace s @ ?two \<rparr>)
           | Some (Inl e') \<Rightarrow>
               (Some (failure e'),
                \<lparr> sent = sent s + length (posts ?two), trace = trace s @ ?two \<rparr>)))"
    unfolding h_def
    by (simp add: getVideoTaskResult_eq Let_def posts_simps split: sum.splits option.splits)
  have one: "polls ?one = 0" "length (posts ?one) = 1" "sleeps ?one = []"
    and two: "polls ?two = 0" "length (posts ?two) = 2" "sleeps ?two = [pollingInterval]"
    by (simp_all add: polls_simps posts_simps sleeps_simps pollingInterval_def)
  have silent: "net n = Silence" if "h (net n) = None" for n
    using that unfolding h_def by (simp add: settle_None)
  have urls: "video_urls r = JUndefined \<or> (\<exists>xs. video_urls r = JArr xs)"
    if "h x = Some (Inr r)" for x r
  proof -
    from that obtain y where "settle ?rq x = Some y"
      and "and_then y (\<lambda>(st, d). getVideoTaskResult_response js st d) = Inr r"
      unfolding h_def by auto
    then obtain st d where "getVideoTaskResult_response js st d = Inr r"
      by (cases y) (auto simp: and_then_def)
    then show ?thesis
      by (rule getVideoTaskResult_response_video_urls)
  qed
  show ?thesis
  proof (cases "h (net (sent s))")
    case None
    then have "getVideoTaskResult js net tid rk s
      = (None, \<lparr> sent = sent s + length (posts ?one), trace = trace s @ ?one \<rparr>)"
      by (simp add: eq)
    then show ?thesis
      using one silent [OF None]
      by (intro exI [of _ ?one] exI [of _ None]) simp
  next
    case (Some a)
    note first = this
    show ?thesis
    proof (cases a)
      case (Inr r)
      then have "getVideoTaskResult js net tid rk s
        = (Some r, \<lparr> sent = sent s + length (posts ?one), trace = trace s @ ?one \<rparr>)"
        using first by (simp add: eq)
      then show ?thesis
        using one urls [of "net (sent s)" r] first Inr
        by (intro exI [of _ ?one] exI [of _ "Some r"]) simp
    next
      case (Inl e)
      note first_e = this
      show ?thesis
      proof (cases "h (net (Suc (sent s)))")
        case None
        then have "getVideoTaskResult js net tid rk s
          = (None, \<lparr> sent = sent s + length (posts ?two), trace = trace s @ ?two \<rparr>)"
          using first first_e by (simp add: eq)
        then show ?thesis
          using two silent [OF None]
          by (intro exI [of _ ?two] exI [of _ None]) simp
      next
        case (Some b)
        note second = this
        show ?thesis
        proof (cases b)
          case (Inr r)
          then have "getVideoTaskResult js net tid rk s
            = (Some r, \<lparr> sent = sent s + length (posts ?two), trace = trace s @ ?two \<rparr>)"
            using first first_e second by (simp add: eq)
          then show ?thesis
            using two urls [of "net (Suc (sent s))" r] second Inr
            by (intro exI [of _ ?two] exI [of _ "Some r"]) simp
        next
          case (Inl e')
          then have "getVideoTaskResult js net tid rk s
            = (Some (failure e'),
               \<lparr> sent = sent s + length (posts ?two), trace = trace s @ ?two \<rparr>)"
            using first first_e second by (simp add: eq)
          then show ?thesis
            using two
            by (intro exI [of _ ?two] exI [of _ "Some (failure e')"]) (simp add: failure_def)
        qed
      qed
    qed
  qed
qed



lemma replicate_all_append:
  "xs = replicate (length xs) a \<Longrightarrow> ys = replicate (length ys) a
   \<Longrightarrow> xs @ ys = replicate (length (xs @ ys)) a"
  by (metis length_append replicate_add)


lemma pollVideo_all_wait:
  assumes "\<And>n. sent s \<le> n \<Longrightarrow>
     \<exists>result. fst (getVideoTaskResult js net tid rk \<lparr> sent = n, trace = [] \<rparr>) = Some result
             \<and> video_step js w tid result = Wait pollingInterval"
  shows "\<exists>es. pollVideo js net w tid rk i s
            = (Some (Inr ((failure VideoPollTimeout)\<lparr> task_id := tid \<rparr>)),
               \<lparr> sent = sent s + length (posts es), trace = trace s @ es \<rparr>)
          \<and> polls es = maxAttempts_video - i
          \<and> maxAttempts_video - i \<le> length (sleeps es)
          \<and> sleeps es = replicate (length (sleeps es)) pollingInterval"
  using assms
proof (induction js net w tid rk i s rule: pollVideo.induct)
  case (1 js net w tid rk i s)
  let ?s1 = "emit (Poll (i + 1) maxAttempts_video) s"
  show ?case
  proof (cases "i < maxAttempts_video")
    case False
    then have "pollVideo js net w tid rk i s
        = (Some (Inr ((failure VideoPollTimeout)\<lparr> task_id := tid \<rparr>)), s)"
      by (simp add: pollVideo.simps)
    then show ?thesis
      using False by (intro exI [of _ "[]"]) (simp add: posts_simps polls_simps sleeps_simps)
  next
    case True
    obtain qs q where
      q: "getVideoTaskResult js net tid rk ?s1
            = (q, \<lparr> sent = sent ?s1 + length (posts qs), trace = trace ?s1 @ qs \<rparr>)"
      and qp: "polls qs = 0" and q1: "1 \<le> length (posts qs)"
      and qsl: "sleeps qs = replicate (length (posts qs) - 1) pollingInterval"
      using getVideoTaskResult_runs [of js net tid rk ?s1] by blast
    let ?s' = "\<lparr> sent = sent ?s1 + length (posts qs), trace = trace ?s1 @ qs \<rparr>"
    have qsl': "sleeps qs = replicate (length (sleeps qs)) pollingInterval"
      using qsl by (metis length_replicate)
    have "sent s \<le> sent s" by simp
    from "1.prems" [OF this] obtain result where
      r: "fst (getVideoTaskResult js net tid rk \<lparr> sent = sent s, trace = [] \<rparr>) = Some result"
      and w: "video_step js w tid result = Wait pollingInterval"
      by blast
    have "fst (getVideoTaskResult js net tid rk ?s1) = Some result"
      using r getVideoTaskResult_fst_sent [of js net tid rk ?s1] by (simp add: emit_def)
    then have q_is: "q = Some result"
      using q by simp
    let ?s2 = "emit (Sleep pollingInterval) ?s'"
    have unfold: "pollVideo js net w tid rk i s = pollVideo js net w tid rk (Suc i) ?s2"
      using True q q_is w by (subst pollVideo.simps) simp
    have q': "(Some result, ?s') = getVideoTaskResult js net tid rk ?s1"
      using q q_is by simp
    have sent2: "sent ?s2 = sent s + length (posts qs)"
      by (simp add: emit_def)
    have "\<exists>es. pollVideo js net w tid rk (Suc i) ?s2
            = (Some (Inr ((failure VideoPollTimeout)\<lparr> task_id := tid \<rparr>)),
               \<lparr> sent = sent ?s2 + length (posts es), trace = trace ?s2 @ es \<rparr>)
          \<and> polls es = maxAttempts_video - Suc i
          \<and> maxAttempts_video - Suc i \<le> length (sleeps es)
          \<and> sleeps es = replicate (length (sleeps es)) pollingInterval"
    proof (rule "1.IH" [OF True q' refl w])
      fix n
      assume "sent ?s2 \<le> n"
      then have "sent s \<le> n"
        unfolding sent2 by simp
      then show "\<exists>result. fst (getVideoTaskResult js net tid rk \<lparr> sent = n, trace = [] \<rparr>)
                   = Some result
             \<and> video_step js w tid result = Wait pollingInterval"
        by (rule "1.prems")
    qed
    then obtain es where
      run: "pollVideo js net w tid rk (Suc i) ?s2
            = (Some (Inr ((failure VideoPollTimeout)\<lparr> task_id := tid \<rparr>)),
               \<lparr> sent = sent ?s2 + length (posts es), trace = trace ?s2 @ es \<rparr>)"
      and p: "polls es = maxAttempts_video - Suc i"
      and n: "maxAttempts_video - Suc i \<le> length (sleeps es)"
      and sl: "sleeps es = replicate (length (sleeps es)) pollingInterval"
      by blast
    have suc: "maxAttempts_video - i = Suc (maxAttempts_video - Suc i)"
      using True by simp
    let ?es = "(Poll (i + 1) maxAttempts_video # qs) @ Sleep pollingInterval # es"
    have e1: "pollVideo js net w tid rk i s
            = (Some (Inr ((failure VideoPollTimeout)\<lparr> task_id := tid \<rparr>)),
               \<lparr> sent = sent s + length (posts ?es), trace = trace s @ ?es \<rparr>)"
      using unfold run by (simp add: emit_def posts_simps)
    have e2: "polls ?es = maxAttempts_video - i"
      using p qp suc by (simp add: polls_simps)
    have e4: "sleeps ?es = sleeps qs @ pollingInterval # sleeps es"
      by (simp add: sleeps_simps)
    have "[pollingInterval] = replicate (length [pollingInterval]) pollingInterval"
      by simp
    then have "pollingInterval # sleeps es
         = replicate (length (pollingInterval # sleeps es)) pollingInterval"
      using sl replicate_all_append [of "[pollingInterval]" pollingInterval "sleeps es"] by simp
    then have e5: "sleeps ?es = replicate (length (sleeps ?es)) pollingInterval"
      unfolding e4 using qsl' by (rule replicate_all_append [rotated])
    have e6: "maxAttempts_video - i \<le> length (sleeps ?es)"
      unfolding e4 suc using n by simp
    from e1 e2 e6 e5 show ?thesis
      by (intro exI [of _ ?es] conjI)
  qed
qed

section \<open>Facts about single calls\<close>

lemma toUpperCase_examples:
  "toUpperCase js ''weird_state'' = ''WEIRD_STATE''" "toUpperCase js ''DONE'' = ''DONE''"
  "toUpperCase js ''failed'' = ''FAILED''"
  by code_simp+

lemma queryAsyncTask_fst:
  "fst (queryAsyncTask js net c params s) =
     map_option (\<lambda>r. catch_failure (and_then r (\<lambda>(st, d). queryAsyncTask_response js st d)))
       (settle (queryAsyncTask_request c params) (net (sent s)))"
  by (simp add: queryAsyncTask_eq)

lemma queryAsyncTask_response_ok:
  assumes "member_of d ''code'' = Inr (JNum 10000)"
    and "member_of d ''data'' = Inr taskData"
    and "member_of taskData ''status'' = Inr (JStr t)"
  shows "queryAsyncTask_response js 200 d =
     Inr \<lparr> success = True, image_urls = JUndefined, video_urls = JUndefined,
           error = None, raw_response = d, task_id = JUndefined,
           status = JStr (if t = ''in_queue'' then ''PENDING''
               else if t = ''generating'' \<or> t = ''processing'' then ''RUNNING''
               else if t = ''done'' then ''SUCCEEDED''
               else if t = ''fail'' \<or> t = ''failed'' then ''FAILED''
               else toUpperCase js t), data = taskData \<rparr>"
  using assms by (simp add: queryAsyncTask_response_def and_then_def normalizedStatus_def)

lemma queryAsyncTask_first_ok:
  assumes "net (sent s) = Response 200 d"
    and "queryAsyncTask_response js 200 d = Inr r"
  shows "queryAsyncTask js net c params s
       = (Some r, \<lparr> sent = Suc (sent s),
                     trace = trace s @ [Post (queryAsyncTask_request c params)] \<rparr>)"
  using assms by (simp add: queryAsyncTask_eq settle_200 and_then_def catch_failure_def)

lemma getVideoTaskResult_response_ok:
  assumes "member_of d ''code'' = Inr (JNum 10000)"
    and "member_of d ''data'' = Inr taskData"
    and "member_of taskData ''status'' = Inr (JStr t)"
  shows "getVideoTaskResult_response js 200 d =
     Inr \<lparr> success = True, image_urls = JUndefined, video_urls = JArr (videoUrls js taskData),
           error = None, raw_response = d, task_id = JUndefined,
           status = JStr (if t = ''in_queue'' then ''PENDING''
               else if t = ''processing'' then ''RUNNING''
               else if t = ''done'' then ''SUCCEEDED''
               else if t = ''fail'' then ''FAILED''
               else toUpperCase js t), data = JUndefined \<rparr>"
  using assms by (simp add: getVideoTaskResult_response_def and_then_def normalizedStatus_video_def)

lemma getVideoTaskResult_first_ok:
  assumes "net (sent s) = Response 200 d"
    and "getVideoTaskResult_response js 200 d = Inr r"
  shows "getVideoTaskResult js net taskId reqKey s
       = (Some r, \<lparr> sent = Suc (sent s),
                     trace = trace s @ [Post (getVideoTaskResult_request taskId reqKey)] \<rparr>)"
  using assms by (simp add: getVideoTaskResult_eq Let_def settle_200 and_then_def)

lemma pollImage_step_wait:
  assumes "i < maxAttempts_image"
    and "queryAsyncTask js net c
           \<lparr> q_req_key = rk, q_task_id = tid, q_req_json = Some return_url_json \<rparr>
           (emit (Poll (i + 1) maxAttempts_image) s) = (Some result, s')"
    and "image_step js ft tid result = Wait ms"
  shows "pollImage js net c rk ft tt tid i s
       = pollImage js net c rk ft tt tid (Suc i) (emit (Sleep ms) s')"
  using assms by (subst pollImage.simps) simp

lemma pollImage_step_return:
  assumes "i < maxAttempts_image"
    and "queryAsyncTask js net c
           \<lparr> q_req_key = rk, q_task_id = tid, q_req_json = Some return_url_json \<rparr>
           (emit (Poll (i + 1) maxAttempts_image) s) = (Some result, s')"
    and "image_step js ft tid result = Return r"
  shows "pollImage js net c rk ft tt tid i s = (Some (Inr r), s')"
  using assms by (subst pollImage.simps) simp

lemma pollVideo_step_wait:
  assumes "i < maxAttempts_video"
    and "getVideoTaskResult js net tid rk (emit (Poll (i + 1) maxAttempts_video) s)
           = (Some result, s')"
    and "video_step js w tid result = Wait ms"
  shows "pollVideo js net w tid rk i s = pollVideo js net w tid rk (Suc i) (emit (Sleep ms) s')"
  using assms by (subst pollVideo.simps) simp


lemma image_step_no_urls:
  assumes "success result" and "status result = JStr ''SUCCEEDED''"
    and "\<not> truthy (read (data result) ''image_urls'') \<or> read (data result) ''image_urls'' = JArr []"
  shows "image_step js ft tid result = Wait 5000"
  using assms
  by (auto simp: image_step_def Let_def pollingInterval_def length_of_def greater_than_zero_def)

lemma video_step_no_urls:
  assumes "success result" and "status result = JStr ''SUCCEEDED''"
    and "\<not> truthy (video_urls result) \<or> video_urls result = JArr []"
  shows "video_step js w tid result = Wait 5000"
  using assms
  by (auto simp: video_step_def pollingInterval_def length_of_def greater_than_zero_def)

lemma submitAsyncTask_eq:
  "submitAsyncTask js net c params s =
     (map_option (\<lambda>r. catch_failure (and_then r (\<lambda>(st, d). submitAsyncTask_response js st d)))
        (settle (submitAsyncTask_request c params) (net (sent s))),
      \<lparr> sent = Suc (sent s), trace = trace s @ [Post (submitAsyncTask_request c params)] \<rparr>)"
  by (simp add: submitAsyncTask_def axios_def split: option.splits)




text \<open>
  A product beyond \<open>2 ^ 53\<close> in magnitude is out of the range the area has to be in, and so
  is every number at least as far from zero on the same side.
\<close>

lemma cleanParams_beyond_exact:
  fixes width height rounded :: int
  assumes "\<not> \<bar>width * height\<bar> \<le> 2 ^ 53"
    and "(0 < width * height \<and> 2 ^ 53 \<le> rounded) \<or> (width * height < 0 \<and> rounded \<le> - (2 ^ 53))"
  shows "(width * height < 1024 * 1024 \<or> width * height > 4096 * 4096)
       \<and> (rounded < 1024 * 1024 \<or> rounded > 4096 * 4096)"
  using assms by (auto simp: abs_if split: if_splits)




lemma submitI2VTask_try_eq:
  "submitI2VTask_try js net p s =
     (case imageUrls p of
        Inl e \<Rightarrow> (Some (Inl e), s)
      | Inr urls \<Rightarrow>
          (map_option (\<lambda>r. and_then r (\<lambda>(st, d). submitI2VTask_response js st d))
             (settle (submitI2VTask_request p urls) (net (sent s))),
           \<lparr> sent = Suc (sent s), trace = trace s @ [Post (submitI2VTask_request p urls)] \<rparr>))"
  by (simp add: submitI2VTask_try_def axios_def split: sum.splits option.splits)

lemma submitI2VTask_loop_1:
  "submitI2VTask_loop js net p (Suc 0) le s =
     (case submitI2VTask_try js net p s of
        (None, s') \<Rightarrow> (None, s')
      | (Some (Inr r), s') \<Rightarrow> (Some r, s')
      | (Some (Inl e), s') \<Rightarrow>
          if image_format_error js e then (Some (failure (ImageFormat e)), s')
          else (Some (failure e), s'))"
  by (subst submitI2VTask_loop.simps) (simp split: prod.splits sum.splits option.splits)

lemma submitI2VTask_loop_0:
  "submitI2VTask_loop js net p 0 le s =
     (case submitI2VTask_try js net p s of
        (None, s') \<Rightarrow> (None, s')
      | (Some (Inr r), s') \<Rightarrow> (Some r, s')
      | (Some (Inl e), s') \<Rightarrow>
          if image_format_error js e then (Some (failure (ImageFormat e)), s')
          else submitI2VTask_loop js net p (Suc 0) (Some e) (emit (Sleep (60 * 1000)) s'))"
  by (subst submitI2VTask_loop.simps) (simp split: prod.splits sum.splits option.splits)

lemma submitI2VTask_missing:
  assumes "imageUrls p = Inl MissingImage"
  shows "submitI2VTask js net p s
       = (Some (failure MissingImage), \<lparr> sent = sent s, trace = trace s @ [Sleep 60000] \<rparr>)"
  using assms
  by (simp add: submitI2VTask_def submitI2VTask_loop_0 submitI2VTask_loop_1
      submitI2VTask_try_eq emit_def)

lemma submitI2VTask_posts:
  assumes "imageUrls p = Inr urls"
  shows "\<exists>es. snd (submitI2VTask js net p s)
            = \<lparr> sent = sent s + length (posts es), trace = trace s @ es \<rparr>
          \<and> (posts es = [submitI2VTask_request p urls]
             \<or> posts es = [submitI2VTask_request p urls, submitI2VTask_request p urls])"
proof -
  let ?rq = "submitI2VTask_request p urls"
  define h where "h = (\<lambda>n. map_option (\<lambda>r. and_then r (\<lambda>(st, d). submitI2VTask_response js st d))
                            (settle ?rq (net n)))"
  have attempt: "submitI2VTask_try js net p t
      = (h (sent t), \<lparr> sent = Suc (sent t), trace = trace t @ [Post ?rq] \<rparr>)" for t
    using assms by (simp add: submitI2VTask_try_eq h_def)
  have one: "posts [Post ?rq] = [?rq]" and two: "posts [Post ?rq, Sleep 60000, Post ?rq] = [?rq, ?rq]"
    by (simp_all add: posts_simps)
  have "snd (submitI2VTask js net p s)
          = \<lparr> sent = sent s + length (posts [Post ?rq]), trace = trace s @ [Post ?rq] \<rparr>
      \<or> snd (submitI2VTask js net p s)
          = \<lparr> sent = sent s + length (posts [Post ?rq, Sleep 60000, Post ?rq]),
              trace = trace s @ [Post ?rq, Sleep 60000, Post ?rq] \<rparr>"
    by (cases "h (sent s)"; cases "h (Suc (sent s))")
       (simp_all add: submitI2VTask_def submitI2VTask_loop_0 submitI2VTask_loop_1
          attempt emit_def posts_simps split: sum.splits)
  then show ?thesis
    using one two by metis
qed

lemma imageUrls_cases:
  "(i2v_image_urls p = Some us \<and> us \<noteq> [] \<longrightarrow> imageUrls p = Inr us)
   \<and> ((i2v_image_urls p = None \<or> i2v_image_urls p = Some [])
        \<and> i2v_image_url p = Some u \<and> u \<noteq> [] \<longrightarrow> imageUrls p = Inr [u])
   \<and> ((i2v_image_urls p = None \<or> i2v_image_urls p = Some [])
        \<and> (i2v_image_url p = None \<or> i2v_image_url p = Some [])
      \<longrightarrow> imageUrls p = Inl MissingImage)"
  by (auto simp: imageUrls_def Let_def)

lemma bodyParams_members:
  "member_of (rq_body (submitI2VTask_request p urls)) ''image_urls'' = Inr (JArr (map JStr urls))"
  "member_of (rq_body (submitI2VTask_request p urls)) ''aspect_ratio''
     = Inr (JStr (string_or (i2v_aspect_ratio p) ''16:9''))"
  by (simp_all add: submitI2VTask_request_def bodyParams_def Let_def)


section \<open>C1: the status table\<close>

text \<open>
  C1, as the code has it. When a query is answered with status 200, code 10000 and a task
  whose status is the string \<open>t\<close>, queryAsyncTask returns a successful result without an
  error, and its status is read off a fixed table that compares \<open>t\<close> as it is, with no
  change of case: \<open>in_queue\<close> gives PENDING, \<open>generating\<close> and \<open>processing\<close> give RUNNING,
  \<open>done\<close> gives SUCCEEDED, \<open>fail\<close> and \<open>failed\<close> give FAILED, and every other string is
  returned as \<^verbatim>\<open>toUpperCase\<close> leaves it: for a string of ASCII characters, with the
  letters a to z turned into A to Z and nothing else changed. getVideoTaskResult does the
  same for every \<open>t\<close> but \<open>generating\<close>, about which this theorem says nothing. There is no
  UNKNOWN result and no error for a status outside the table.
\<close>

theorem status_normalization_table:
  assumes "net (sent s) = Response 200 d"
    and "member_of d ''code'' = Inr (JNum 10000)"
    and "member_of d ''data'' = Inr taskData"
    and "member_of taskData ''status'' = Inr (JStr t)"
  shows "(\<exists>r. fst (queryAsyncTask js net c params s) = Some r
            \<and> success r \<and> error r = None
            \<and> status r
                = JStr (if t = ''in_queue'' then ''PENDING''
                        else if t = ''generating'' \<or> t = ''processing'' then ''RUNNING''
                        else if t = ''done'' then ''SUCCEEDED''
                        else if t = ''fail'' \<or> t = ''failed'' then ''FAILED''
                        else toUpperCase js t))
       \<and> (t \<noteq> ''generating'' \<longrightarrow>
            (\<exists>r. fst (getVideoTaskResult js net taskId reqKey s) = Some r
               \<and> success r \<and> error r = None
               \<and> status r
                   = JStr (if t = ''in_queue'' then ''PENDING''
                           else if t = ''processing'' then ''RUNNING''
                           else if t = ''done'' then ''SUCCEEDED''
                           else if t = ''fail'' \<or> t = ''failed'' then ''FAILED''
                           else toUpperCase js t)))
       \<and> (list_all (\<lambda>ch. of_char ch < (128::nat)) t \<longrightarrow>
            toUpperCase js t
              = map (\<lambda>ch. if CHR ''a'' \<le> ch \<and> ch \<le> CHR ''z''
                           then char_of (of_char ch - (32::nat)) else ch) t)"
proof -
  let ?q = "\<lparr> success = True, image_urls = JUndefined, video_urls = JUndefined,
           error = None, raw_response = d, task_id = JUndefined,
           status = JStr (if t = ''in_queue'' then ''PENDING''
               else if t = ''generating'' \<or> t = ''processing'' then ''RUNNING''
               else if t = ''done'' then ''SUCCEEDED''
               else if t = ''fail'' \<or> t = ''failed'' then ''FAILED''
               else toUpperCase js t), data = taskData \<rparr>"
  let ?v = "\<lparr> success = True, image_urls = JUndefined, video_urls = JArr (videoUrls js taskData),
           error = None, raw_response = d, task_id = JUndefined,
           status = JStr (if t = ''in_queue'' then ''PENDING''
               else if t = ''processing'' then ''RUNNING''
               else if t = ''done'' then ''SUCCEEDED''
               else if t = ''fail'' then ''FAILED''
               else toUpperCase js t), data = JUndefined \<rparr>"
  have q: "fst (queryAsyncTask js net c params s) = Some ?q"
    using queryAsyncTask_first_ok [where net = net and s = s and js = js, OF assms(1)
            queryAsyncTask_response_ok [OF assms(2-4), of js], of c params]
    by simp
  have v: "fst (getVideoTaskResult js net taskId reqKey s) = Some ?v"
    using getVideoTaskResult_first_ok [where net = net and s = s and js = js, OF assms(1)
            getVideoTaskResult_response_ok [OF assms(2-4), of js], of taskId reqKey]
    by simp
  have a: "list_all (\<lambda>ch. of_char ch < (128::nat)) t \<longrightarrow>
            toUpperCase js t
              = map (\<lambda>ch. if CHR ''a'' \<le> ch \<and> ch \<le> CHR ''z''
                           then char_of (of_char ch - (32::nat)) else ch) t"
    by (simp add: toUpperCase_def)
  show ?thesis
    unfolding q v using a by (simp add: toUpperCase_examples)
qed

text \<open>
  The table at \<open>done\<close> for both methods, and at a string of ASCII characters outside it for
  getVideoTaskResult.
\<close>

theorem status_normalization_table_witness:
  "map_option status
     (fst (queryAsyncTask example_builtins (\<lambda>n. status_reply ''done'') example_client
             \<lparr> q_req_key = ''jimeng_t2i_v40'', q_task_id = JStr ''T1'', q_req_json = None \<rparr>
             fresh)) = Some (JStr ''SUCCEEDED'')
   \<and> map_option status
       (fst (getVideoTaskResult example_builtins (\<lambda>n. status_reply ''done'') (JStr ''T1'')
               ''jimeng_vgfm_t2v_l20'' fresh)) = Some (JStr ''SUCCEEDED'')
   \<and> map_option status
       (fst (getVideoTaskResult example_builtins (\<lambda>n. status_reply ''weird_state'')
               (JStr ''T1'') ''jimeng_vgfm_t2v_l20'' fresh)) = Some (JStr ''WEIRD_STATE'')
   \<and> toUpperCase example_builtins ''weird_state'' = ''WEIRD_STATE''"
proof -
  have a: "(\<lambda>n. status_reply t) (sent fresh)
      = Response 200 (JObj [(''code'', JNum 10000), (''data'', JObj [(''status'', JStr t)])])" for t
    by (simp add: status_reply_def)
  have b: "member_of (JObj [(''code'', JNum 10000), (''data'', JObj [(''status'', JStr t)])])
             ''code'' = Inr (JNum 10000)" for t
    by simp
  have c: "member_of (JObj [(''code'', JNum 10000), (''data'', JObj [(''status'', JStr t)])])
             ''data'' = Inr (JObj [(''status'', JStr t)])" for t
    by simp
  have d: "member_of (JObj [(''status'', JStr t)]) ''status'' = Inr (JStr t)" for t
    by simp
  have ascii: "list_all (\<lambda>ch. of_char ch < (128::nat)) ''weird_state''"
    by simp
  have up: "map (\<lambda>ch. if CHR ''a'' \<le> ch \<and> ch \<le> CHR ''z''
                       then char_of (of_char ch - (32::nat)) else ch) ''weird_state''
      = ''WEIRD_STATE''"
    by code_simp
  note at_done = status_normalization_table [where net = "\<lambda>n. status_reply ''done''" and s = fresh
        and c = example_client and js = example_builtins and taskId = "JStr ''T1''"
        and reqKey = "''jimeng_vgfm_t2v_l20''"
        and params = "\<lparr> q_req_key = ''jimeng_t2i_v40'', q_task_id = JStr ''T1'',
                        q_req_json = None \<rparr>", OF a b c d]
  note weird = status_normalization_table [where net = "\<lambda>n. status_reply ''weird_state''"
        and s = fresh and c = example_client and js = example_builtins
        and taskId = "JStr ''T1''" and reqKey = "''jimeng_vgfm_t2v_l20''"
        and params = "\<lparr> q_req_key = ''jimeng_t2i_v40'', q_task_id = JStr ''T1'',
                        q_req_json = None \<rparr>", OF a b c d]
  have w4: "toUpperCase example_builtins ''weird_state'' = ''WEIRD_STATE''"
    using weird ascii up by simp
  have w1: "map_option status
     (fst (queryAsyncTask example_builtins (\<lambda>n. status_reply ''done'') example_client
             \<lparr> q_req_key = ''jimeng_t2i_v40'', q_task_id = JStr ''T1'', q_req_json = None \<rparr>
             fresh)) = Some (JStr ''SUCCEEDED'')"
    using at_done by auto
  have w2: "map_option status
       (fst (getVideoTaskResult example_builtins (\<lambda>n. status_reply ''done'') (JStr ''T1'')
               ''jimeng_vgfm_t2v_l20'' fresh)) = Some (JStr ''SUCCEEDED'')"
    using at_done by auto
  have w3: "map_option status
       (fst (getVideoTaskResult example_builtins (\<lambda>n. status_reply ''weird_state'')
               (JStr ''T1'') ''jimeng_vgfm_t2v_l20'' fresh)) = Some (JStr ''WEIRD_STATE'')"
    using weird w4 by auto
  show ?thesis
    using w1 w2 w3 w4 by simp
qed

text \<open>
  C1 as the spec states it does not hold: the status \<open>weird_state\<close>, which the table does not
  list, comes back as a successful result with status \<open>WEIRD_STATE\<close> and no error, and
  \<open>DONE\<close>, which differs from \<open>done\<close> in case only, comes back as \<open>DONE\<close> and not as
  SUCCEEDED.
\<close>

theorem unlisted_status_counterexample:
  "fst (queryAsyncTask example_builtins (\<lambda>n. status_reply ''weird_state'') example_client
          \<lparr> q_req_key = ''jimeng_t2i_v40'', q_task_id = JStr ''T1'', q_req_json = None \<rparr> fresh)
     = Some \<lparr> success = True, image_urls = JUndefined, video_urls = JUndefined, error = None,
              raw_response = JObj [(''code'', JNum 10000),
                                   (''data'', JObj [(''status'', JStr ''weird_state'')])],
              task_id = JUndefined, status = JStr ''WEIRD_STATE'',
              data = JObj [(''status'', JStr ''weird_state'')] \<rparr>
   \<and> map_option status
       (fst (queryAsyncTask example_builtins (\<lambda>n. status_reply ''DONE'') example_client
          \<lparr> q_req_key = ''jimeng_t2i_v40'', q_task_id = JStr ''T1'', q_req_json = None \<rparr> fresh))
     = Some (JStr ''DONE'')"
  by (simp add: queryAsyncTask_fst status_reply_def settle_200 and_then_def catch_failure_def
      queryAsyncTask_response_ok toUpperCase_examples)

section \<open>C2: success without output\<close>

text \<open>
  C2, as the code has it. A query result that is a success with status SUCCEEDED and no
  image URL (the task data hold no \<^verbatim>\<open>image_urls\<close>, or a value that counts as false, or the
  empty array) ends the iteration of the image loop in a wait of 5000 ms, and so does a
  result with status SUCCEEDED and no video URL (none at all, or the empty array) in the
  video loop; an iteration that ends in that wait is followed by the next iteration (while
  the attempt counter is below the maximum), not by a return; and when every query of a run
  ends so, the image loop returns the poll-timeout failure that carries the task id, and
  the video loop returns its poll-timeout failure that carries the task id. The loop never
  reports such a response as a failed task.
\<close>

theorem succeeded_without_urls_is_polled_again:
  "(success result \<and> status result = JStr ''SUCCEEDED''
      \<and> (\<not> truthy (read (data result) ''image_urls'')
          \<or> read (data result) ''image_urls'' = JArr [])
    \<longrightarrow> image_step js failed_text taskId result = Wait 5000)
   \<and> (success vresult \<and> status vresult = JStr ''SUCCEEDED''
      \<and> (\<not> truthy (video_urls vresult) \<or> video_urls vresult = JArr [])
    \<longrightarrow> video_step js in_queue_waits taskId vresult = Wait 5000)
   \<and> (i < maxAttempts_image
      \<and> queryAsyncTask js net c
           \<lparr> q_req_key = req_key, q_task_id = taskId, q_req_json = Some return_url_json \<rparr>
           (emit (Poll (i + 1) maxAttempts_image) s) = (Some result, s')
      \<and> image_step js failed_text taskId result = Wait 5000
    \<longrightarrow> pollImage js net c req_key failed_text timeout_text taskId i s
        = pollImage js net c req_key failed_text timeout_text taskId (Suc i)
            (emit (Sleep 5000) s'))
   \<and> (j < maxAttempts_video
      \<and> getVideoTaskResult js net taskId reqKey (emit (Poll (j + 1) maxAttempts_video) s)
          = (Some vresult, s')
      \<and> video_step js in_queue_waits taskId vresult = Wait 5000
    \<longrightarrow> pollVideo js net in_queue_waits taskId reqKey j s
        = pollVideo js net in_queue_waits taskId reqKey (Suc j) (emit (Sleep 5000) s'))
   \<and> ((\<forall>n. \<exists>r. fst (queryAsyncTask js net c
                       \<lparr> q_req_key = req_key, q_task_id = taskId,
                         q_req_json = Some return_url_json \<rparr>
                       \<lparr> sent = n, trace = [] \<rparr>) = Some r
              \<and> image_step js failed_text taskId r = Wait 5000)
    \<longrightarrow> fst (pollImage js net c req_key failed_text timeout_text taskId 0 s)
        = Some (Inr \<lparr> success = False, image_urls = JUndefined, video_urls = JUndefined,
                      error = Some timeout_text, raw_response = JUndefined, task_id = taskId,
                      status = JUndefined, data = JUndefined \<rparr>))
   \<and> ((\<forall>n. \<exists>r. fst (getVideoTaskResult js net taskId reqKey \<lparr> sent = n, trace = [] \<rparr>)
                = Some r
              \<and> video_step js in_queue_waits taskId r = Wait 5000)
    \<longrightarrow> fst (pollVideo js net in_queue_waits taskId reqKey 0 s)
        = Some (Inr \<lparr> success = False, image_urls = JUndefined, video_urls = JUndefined,
                      error = Some VideoPollTimeout, raw_response = JUndefined,
                      task_id = taskId, status = JUndefined, data = JUndefined \<rparr>))"
proof (intro conjI impI)
  assume "success result \<and> status result = JStr ''SUCCEEDED''
      \<and> (\<not> truthy (read (data result) ''image_urls'')
          \<or> read (data result) ''image_urls'' = JArr [])"
  then show "image_step js failed_text taskId result = Wait 5000"
    by (intro image_step_no_urls) simp_all
next
  assume "success vresult \<and> status vresult = JStr ''SUCCEEDED''
      \<and> (\<not> truthy (video_urls vresult) \<or> video_urls vresult = JArr [])"
  then show "video_step js in_queue_waits taskId vresult = Wait 5000"
    by (intro video_step_no_urls) simp_all
next
  assume "i < maxAttempts_image
      \<and> queryAsyncTask js net c
           \<lparr> q_req_key = req_key, q_task_id = taskId, q_req_json = Some return_url_json \<rparr>
           (emit (Poll (i + 1) maxAttempts_image) s) = (Some result, s')
      \<and> image_step js failed_text taskId result = Wait 5000"
  then show "pollImage js net c req_key failed_text timeout_text taskId i s
        = pollImage js net c req_key failed_text timeout_text taskId (Suc i)
            (emit (Sleep 5000) s')"
    by (simp add: pollImage_step_wait)
next
  assume "j < maxAttempts_video
      \<and> getVideoTaskResult js net taskId reqKey (emit (Poll (j + 1) maxAttempts_video) s)
          = (Some vresult, s')
      \<and> video_step js in_queue_waits taskId vresult = Wait 5000"
  then show "pollVideo js net in_queue_waits taskId reqKey j s
        = pollVideo js net in_queue_waits taskId reqKey (Suc j) (emit (Sleep 5000) s')"
    by (simp add: pollVideo_step_wait)
next
  let ?qp = "\<lparr> q_req_key = req_key, q_task_id = taskId, q_req_json = Some return_url_json \<rparr>"
  assume a: "\<forall>n. \<exists>r. fst (queryAsyncTask js net c ?qp \<lparr> sent = n, trace = [] \<rparr>) = Some r
              \<and> image_step js failed_text taskId r = Wait 5000"
  have "\<exists>es. pollImage js net c req_key failed_text timeout_text taskId 0 s
            = (Some (Inr ((failure timeout_text)\<lparr> task_id := taskId \<rparr>)),
               \<lparr> sent = sent s + (maxAttempts_image - 0), trace = trace s @ es \<rparr>)
          \<and> polls es = maxAttempts_image - 0
          \<and> sleeps es = replicate (maxAttempts_image - 0) pollingInterval"
  proof (rule pollImage_all_wait)
    fix n
    show "\<exists>result. fst (queryAsyncTask js net c ?qp \<lparr> sent = n, trace = [] \<rparr>) = Some result
             \<and> image_step js failed_text taskId result = Wait pollingInterval"
      using a [rule_format, of n] by (simp add: pollingInterval_def)
  qed
  then show "fst (pollImage js net c req_key failed_text timeout_text taskId 0 s)
        = Some (Inr \<lparr> success = False, image_urls = JUndefined, video_urls = JUndefined,
                      error = Some timeout_text, raw_response = JUndefined, task_id = taskId,
                      status = JUndefined, data = JUndefined \<rparr>)"
    by (auto simp: failure_def)
next
  assume a: "\<forall>n. \<exists>r. fst (getVideoTaskResult js net taskId reqKey \<lparr> sent = n, trace = [] \<rparr>)
                = Some r
              \<and> video_step js in_queue_waits taskId r = Wait 5000"
  have "\<exists>es. pollVideo js net in_queue_waits taskId reqKey 0 s
            = (Some (Inr ((failure VideoPollTimeout)\<lparr> task_id := taskId \<rparr>)),
               \<lparr> sent = sent s + length (posts es), trace = trace s @ es \<rparr>)
          \<and> polls es = maxAttempts_video - 0
          \<and> maxAttempts_video - 0 \<le> length (sleeps es)
          \<and> sleeps es = replicate (length (sleeps es)) pollingInterval"
  proof (rule pollVideo_all_wait)
    fix n
    show "\<exists>result. fst (getVideoTaskResult js net taskId reqKey \<lparr> sent = n, trace = [] \<rparr>)
                = Some result
             \<and> video_step js in_queue_waits taskId result = Wait pollingInterval"
      using a [rule_format, of n] by (simp add: pollingInterval_def)
  qed
  then show "fst (pollVideo js net in_queue_waits taskId reqKey 0 s)
        = Some (Inr \<lparr> success = False, image_urls = JUndefined, video_urls = JUndefined,
                      error = Some VideoPollTimeout, raw_response = JUndefined,
                      task_id = taskId, status = JUndefined, data = JUndefined \<rparr>)"
    by (auto simp: failure_def)
qed

text \<open>
  With a provider that answers every query with \<^verbatim>\<open>done\<close> and an empty list (for a video
  task: with \<^verbatim>\<open>done\<close> and no URL): the first result ends in the wait, the first attempt of
  either loop ends in the sleep and the second attempt, and the run of either loop ends in
  its poll-timeout failure for task \<open>T1\<close>.
\<close>

theorem succeeded_without_urls_is_polled_again_witness:
  "map_option (image_step example_builtins ImageTaskFailed (JStr ''T1''))
     (fst (queryAsyncTask example_builtins (\<lambda>n. urls_reply ''done'' []) example_client
             \<lparr> q_req_key = ''jimeng_t2i_v40'', q_task_id = JStr ''T1'',
               q_req_json = Some return_url_json \<rparr> fresh)) = Some (Wait 5000)
   \<and> map_option (video_step example_builtins False (JStr ''T1''))
     (fst (getVideoTaskResult example_builtins (\<lambda>n. status_reply ''done'') (JStr ''T1'')
             ''jimeng_vgfm_t2v_l20'' fresh)) = Some (Wait 5000)
   \<and> pollImage example_builtins (\<lambda>n. urls_reply ''done'' []) example_client ''jimeng_t2i_v40''
        ImageTaskFailed ImagePollTimeout (JStr ''T1'') 0 fresh
     = pollImage example_builtins (\<lambda>n. urls_reply ''done'' []) example_client ''jimeng_t2i_v40''
        ImageTaskFailed ImagePollTimeout (JStr ''T1'') (Suc 0)
        \<lparr> sent = 1,
          trace = [Poll 1 60,
                   Post (queryAsyncTask_request example_client
                           \<lparr> q_req_key = ''jimeng_t2i_v40'', q_task_id = JStr ''T1'',
                             q_req_json = Some return_url_json \<rparr>),
                   Sleep 5000] \<rparr>
   \<and> pollVideo example_builtins (\<lambda>n. status_reply ''done'') False (JStr ''T1'')
        ''jimeng_vgfm_t2v_l20'' 0 fresh
     = pollVideo example_builtins (\<lambda>n. status_reply ''done'') False (JStr ''T1'')
        ''jimeng_vgfm_t2v_l20'' (Suc 0)
        \<lparr> sent = 1,
          trace = [Poll 1 100,
                   Post (getVideoTaskResult_request (JStr ''T1'') ''jimeng_vgfm_t2v_l20''),
                   Sleep 5000] \<rparr>
   \<and> fst (pollImage example_builtins (\<lambda>n. urls_reply ''done'' []) example_client
            ''jimeng_t2i_v40'' ImageTaskFailed ImagePollTimeout (JStr ''T1'') 0 fresh)
     = Some (Inr \<lparr> success = False, image_urls = JUndefined, video_urls = JUndefined,
                   error = Some ImagePollTimeout, raw_response = JUndefined,
                   task_id = JStr ''T1'', status = JUndefined, data = JUndefined \<rparr>)
   \<and> fst (pollVideo example_builtins (\<lambda>n. status_reply ''done'') False (JStr ''T1'')
            ''jimeng_vgfm_t2v_l20'' 0 fresh)
     = Some (Inr \<lparr> success = False, image_urls = JUndefined, video_urls = JUndefined,
                   error = Some VideoPollTimeout, raw_response = JUndefined,
                   task_id = JStr ''T1'', status = JUndefined, data = JUndefined \<rparr>)"
proof -
  let ?js = example_builtins
  let ?net = "\<lambda>n::nat. urls_reply ''done'' []"
  let ?vnet = "\<lambda>n::nat. status_reply ''done''"
  let ?qp = "\<lparr> q_req_key = ''jimeng_t2i_v40'', q_task_id = JStr ''T1'',
                q_req_json = Some return_url_json \<rparr>"
  let ?rq = "queryAsyncTask_request example_client ?qp"
  let ?vrq = "getVideoTaskResult_request (JStr ''T1'') ''jimeng_vgfm_t2v_l20''"
  let ?result = "\<lparr> success = True, image_urls = JUndefined, video_urls = JUndefined,
         error = None,
         raw_response = JObj [(''code'', JNum 10000),
                              (''data'', JObj [(''status'', JStr ''done''),
                                               (''image_urls'', JArr [])])],
         task_id = JUndefined, status = JStr ''SUCCEEDED'',
         data = JObj [(''status'', JStr ''done''), (''image_urls'', JArr [])] \<rparr>"
  let ?vresult = "\<lparr> success = True, image_urls = JUndefined, video_urls = JArr [],
         error = None,
         raw_response = JObj [(''code'', JNum 10000),
                              (''data'', JObj [(''status'', JStr ''done'')])],
         task_id = JUndefined, status = JStr ''SUCCEEDED'', data = JUndefined \<rparr>"
  have q: "queryAsyncTask ?js ?net example_client ?qp \<lparr> sent = n, trace = t \<rparr>
      = (Some ?result, \<lparr> sent = Suc n, trace = t @ [Post ?rq] \<rparr>)" for n t
    by (simp add: queryAsyncTask_eq urls_reply_def settle_200 and_then_def catch_failure_def
        queryAsyncTask_response_ok)
  have q0: "fst (queryAsyncTask ?js ?net example_client ?qp fresh) = Some ?result"
    by (simp add: fresh_def q)
  have q1: "queryAsyncTask ?js ?net example_client ?qp
              (emit (Poll (0 + 1) maxAttempts_image) fresh)
      = (Some ?result, \<lparr> sent = 1, trace = [Poll 1 60, Post ?rq] \<rparr>)"
    by (simp add: fresh_def emit_def q maxAttempts_image_def)
  have vr: "getVideoTaskResult_response ?js 200
              (JObj [(''code'', JNum 10000), (''data'', JObj [(''status'', JStr ''done'')])])
      = Inr ?vresult"
    by (simp add: getVideoTaskResult_response_def and_then_def normalizedStatus_video_def
        videoUrls_def urls_of_resp_data_def read_def)
  have v: "getVideoTaskResult ?js ?vnet (JStr ''T1'') ''jimeng_vgfm_t2v_l20''
             \<lparr> sent = n, trace = t \<rparr>
      = (Some ?vresult, \<lparr> sent = Suc n, trace = t @ [Post ?vrq] \<rparr>)" for n t
    using getVideoTaskResult_first_ok [where net = ?vnet and s = "\<lparr> sent = n, trace = t \<rparr>"
        and js = ?js and r = ?vresult and taskId = "JStr ''T1''"
        and reqKey = "''jimeng_vgfm_t2v_l20''"] vr
    by (simp add: status_reply_def)
  have v0: "fst (getVideoTaskResult ?js ?vnet (JStr ''T1'') ''jimeng_vgfm_t2v_l20'' fresh)
      = Some ?vresult"
    by (simp add: fresh_def v)
  have v1: "getVideoTaskResult ?js ?vnet (JStr ''T1'') ''jimeng_vgfm_t2v_l20''
             (emit (Poll (0 + 1) maxAttempts_video) fresh)
      = (Some ?vresult, \<lparr> sent = 1, trace = [Poll 1 100, Post ?vrq] \<rparr>)"
    by (simp add: fresh_def emit_def v maxAttempts_video_def)
  have h: "success ?result \<and> status ?result = JStr ''SUCCEEDED''
      \<and> (\<not> truthy (read (data ?result) ''image_urls'')
          \<or> read (data ?result) ''image_urls'' = JArr [])"
    by (simp add: read_def)
  have hv: "success ?vresult \<and> status ?vresult = JStr ''SUCCEEDED''
      \<and> (\<not> truthy (video_urls ?vresult) \<or> video_urls ?vresult = JArr [])"
    by simp
  note inst = succeeded_without_urls_is_polled_again
      [where result = ?result and vresult = ?vresult and failed_text = ImageTaskFailed
         and taskId = "JStr ''T1''" and in_queue_waits = False and js = ?js
         and c = example_client and req_key = "''jimeng_t2i_v40''"
         and reqKey = "''jimeng_vgfm_t2v_l20''"
         and timeout_text = ImagePollTimeout and s = fresh and i = 0 and j = 0]
  have w: "image_step ?js ImageTaskFailed (JStr ''T1'') ?result = Wait 5000"
    using inst h by blast
  have wv: "video_step ?js False (JStr ''T1'') ?vresult = Wait 5000"
    using inst hv by blast
  have lt: "0 < maxAttempts_image" "0 < maxAttempts_video"
    by (simp_all add: maxAttempts_image_def maxAttempts_video_def)
  have step: "pollImage ?js ?net example_client ''jimeng_t2i_v40'' ImageTaskFailed
        ImagePollTimeout (JStr ''T1'') 0 fresh
     = pollImage ?js ?net example_client ''jimeng_t2i_v40'' ImageTaskFailed ImagePollTimeout
        (JStr ''T1'') (Suc 0) (emit (Sleep 5000) \<lparr> sent = 1, trace = [Poll 1 60, Post ?rq] \<rparr>)"
    using inst [where net = ?net and s' = "\<lparr> sent = 1, trace = [Poll 1 60, Post ?rq] \<rparr>"]
      lt(1) q1 w
    by blast
  have vstep: "pollVideo ?js ?vnet False (JStr ''T1'') ''jimeng_vgfm_t2v_l20'' 0 fresh
     = pollVideo ?js ?vnet False (JStr ''T1'') ''jimeng_vgfm_t2v_l20'' (Suc 0)
        (emit (Sleep 5000) \<lparr> sent = 1, trace = [Poll 1 100, Post ?vrq] \<rparr>)"
    using inst [where net = ?vnet and s' = "\<lparr> sent = 1, trace = [Poll 1 100, Post ?vrq] \<rparr>"]
      lt(2) v1 wv
    by blast
  have qall: "\<forall>n. \<exists>r. fst (queryAsyncTask ?js ?net example_client ?qp \<lparr> sent = n, trace = [] \<rparr>)
                = Some r
              \<and> image_step ?js ImageTaskFailed (JStr ''T1'') r = Wait 5000"
    using w by (simp add: q)
  have vall: "\<forall>n. \<exists>r. fst (getVideoTaskResult ?js ?vnet (JStr ''T1'') ''jimeng_vgfm_t2v_l20''
                          \<lparr> sent = n, trace = [] \<rparr>) = Some r
              \<and> video_step ?js False (JStr ''T1'') r = Wait 5000"
    using wv by (simp add: v)
  have all: "fst (pollImage ?js ?net example_client ''jimeng_t2i_v40'' ImageTaskFailed
               ImagePollTimeout (JStr ''T1'') 0 fresh)
     = Some (Inr \<lparr> success = False, image_urls = JUndefined, video_urls = JUndefined,
                   error = Some ImagePollTimeout, raw_response = JUndefined,
                   task_id = JStr ''T1'', status = JUndefined, data = JUndefined \<rparr>)"
    using inst [where net = ?net] qall by blast
  have vall': "fst (pollVideo ?js ?vnet False (JStr ''T1'') ''jimeng_vgfm_t2v_l20'' 0 fresh)
     = Some (Inr \<lparr> success = False, image_urls = JUndefined, video_urls = JUndefined,
                   error = Some VideoPollTimeout, raw_response = JUndefined,
                   task_id = JStr ''T1'', status = JUndefined, data = JUndefined \<rparr>)"
    using inst [where net = ?vnet] vall by blast
  show ?thesis
    unfolding q0 v0 using w wv step vstep all vall' by (simp add: emit_def)
qed

text \<open>
  C2 as the spec states it does not hold: the first query of this run of
  generateJimengV40Image is answered with \<^verbatim>\<open>done\<close> and an empty list (the result of
  queryAsyncTask for it is the second conjunct); the method waits 5000 ms, queries again
  and returns the success of the second query, after two attempts.
\<close>

theorem succeeded_without_urls_counterexample:
  "generateJimengV40Image example_builtins empty_then_urls example_client example_params fresh
     = (Some (Inr \<lparr> success = True, image_urls = JArr [JStr ''https://x/a.png''],
           video_urls = JUndefined, error = None,
           raw_response = JObj [(''code'', JNum 10000),
                                (''data'', JObj [(''status'', JStr ''done''),
                                   (''image_urls'', JArr [JStr ''https://x/a.png''])])],
           task_id = JStr ''T1'', status = JUndefined, data = JUndefined \<rparr>),
        \<lparr> sent = 3,
          trace = [Post (submitAsyncTask_request example_client
                           (JObj [(''req_key'', JStr ''jimeng_t2i_v40''),
                                  (''prompt'', JStr ''a cat'')])),
                   Poll 1 60,
                   Post (queryAsyncTask_request example_client
                           \<lparr> q_req_key = ''jimeng_t2i_v40'', q_task_id = JStr ''T1'',
                             q_req_json = Some return_url_json \<rparr>),
                   Sleep 5000,
                   Poll 2 60,
                   Post (queryAsyncTask_request example_client
                           \<lparr> q_req_key = ''jimeng_t2i_v40'', q_task_id = JStr ''T1'',
                             q_req_json = Some return_url_json \<rparr>)] \<rparr>)
   \<and> fst (queryAsyncTask example_builtins empty_then_urls example_client
            \<lparr> q_req_key = ''jimeng_t2i_v40'', q_task_id = JStr ''T1'',
              q_req_json = Some return_url_json \<rparr> \<lparr> sent = 1, trace = [] \<rparr>)
     = Some \<lparr> success = True, image_urls = JUndefined, video_urls = JUndefined, error = None,
         raw_response = JObj [(''code'', JNum 10000),
                              (''data'', JObj [(''status'', JStr ''done''),
                                               (''image_urls'', JArr [])])],
         task_id = JUndefined, status = JStr ''SUCCEEDED'',
         data = JObj [(''status'', JStr ''done''), (''image_urls'', JArr [])] \<rparr>"
proof -
  let ?js = example_builtins
  let ?qp = "\<lparr> q_req_key = ''jimeng_t2i_v40'', q_task_id = JStr ''T1'',
                q_req_json = Some return_url_json \<rparr>"
  let ?sub = "submitAsyncTask_request example_client
                (JObj [(''req_key'', JStr ''jimeng_t2i_v40''), (''prompt'', JStr ''a cat'')])"
  let ?rq = "queryAsyncTask_request example_client ?qp"
  let ?empty = "\<lparr> success = True, image_urls = JUndefined, video_urls = JUndefined, error = None,
            raw_response = JObj [(''code'', JNum 10000),
                                 (''data'', JObj [(''status'', JStr ''done''),
                                                  (''image_urls'', JArr [])])],
            task_id = JUndefined, status = JStr ''SUCCEEDED'',
            data = JObj [(''status'', JStr ''done''), (''image_urls'', JArr [])] \<rparr>"
  let ?full = "\<lparr> success = True, image_urls = JUndefined, video_urls = JUndefined, error = None,
            raw_response = JObj [(''code'', JNum 10000),
                                 (''data'', JObj [(''status'', JStr ''done''),
                                    (''image_urls'', JArr [JStr ''https://x/a.png''])])],
            task_id = JUndefined, status = JStr ''SUCCEEDED'',
            data = JObj [(''status'', JStr ''done''),
                         (''image_urls'', JArr [JStr ''https://x/a.png''])] \<rparr>"
  let ?answer = "\<lparr> success = True, image_urls = JArr [JStr ''https://x/a.png''],
           video_urls = JUndefined, error = None,
           raw_response = JObj [(''code'', JNum 10000),
                                (''data'', JObj [(''status'', JStr ''done''),
                                   (''image_urls'', JArr [JStr ''https://x/a.png''])])],
           task_id = JStr ''T1'', status = JUndefined, data = JUndefined \<rparr>"
  have submit: "submitJimengV40Task example_builtins empty_then_urls example_client example_params fresh
      = (Some \<lparr> success = True, image_urls = JUndefined, video_urls = JUndefined, error = None,
            raw_response = JObj [(''code'', JNum 10000),
                                 (''data'', JObj [(''task_id'', JStr ''T1'')])],
            task_id = JStr ''T1'', status = JUndefined, data = JUndefined \<rparr>,
         \<lparr> sent = 1, trace = [Post ?sub] \<rparr>)"
    by (simp add: submitJimengV40Task_def cleanParams_def example_params_def optional_def
        submitAsyncTask_eq fresh_def empty_then_urls_def task_reply_def settle_200
        and_then_def catch_failure_def submitAsyncTask_response_def)
  have q1: "queryAsyncTask ?js empty_then_urls example_client ?qp
        (emit (Poll (0 + 1) maxAttempts_image) \<lparr> sent = 1, trace = [Post ?sub] \<rparr>)
      = (Some ?empty, \<lparr> sent = 2, trace = [Post ?sub, Poll 1 60, Post ?rq] \<rparr>)"
    by (simp add: queryAsyncTask_eq emit_def empty_then_urls_def urls_reply_def settle_200
        and_then_def catch_failure_def queryAsyncTask_response_ok maxAttempts_image_def)
  have w1: "image_step ?js ImageTaskFailed (JStr ''T1'') ?empty = Wait 5000"
    by (simp add: image_step_def read_def pollingInterval_def Let_def length_of_def
        greater_than_zero_def)
  have q2: "queryAsyncTask ?js empty_then_urls example_client ?qp
        (emit (Poll (Suc 0 + 1) maxAttempts_image)
           (emit (Sleep 5000) \<lparr> sent = 2, trace = [Post ?sub, Poll 1 60, Post ?rq] \<rparr>))
      = (Some ?full,
         \<lparr> sent = 3, trace = [Post ?sub, Poll 1 60, Post ?rq, Sleep 5000, Poll 2 60, Post ?rq] \<rparr>)"
    by (simp add: queryAsyncTask_eq emit_def empty_then_urls_def urls_reply_def settle_200
        and_then_def catch_failure_def queryAsyncTask_response_ok maxAttempts_image_def)
  have r2: "image_step ?js ImageTaskFailed (JStr ''T1'') ?full = Return ?answer"
    by (simp add: image_step_def read_def Let_def length_of_def greater_than_zero_def)
  have lt: "0 < maxAttempts_image" "Suc 0 < maxAttempts_image"
    by (simp_all add: maxAttempts_image_def)
  have "pollImage ?js empty_then_urls example_client ''jimeng_t2i_v40'' ImageTaskFailed
          ImagePollTimeout (JStr ''T1'') 0 \<lparr> sent = 1, trace = [Post ?sub] \<rparr>
      = pollImage ?js empty_then_urls example_client ''jimeng_t2i_v40'' ImageTaskFailed
          ImagePollTimeout (JStr ''T1'') (Suc 0)
          (emit (Sleep 5000) \<lparr> sent = 2, trace = [Post ?sub, Poll 1 60, Post ?rq] \<rparr>)"
    by (rule pollImage_step_wait [OF lt(1) q1 w1])
  also have "\<dots> = (Some (Inr ?answer),
         \<lparr> sent = 3, trace = [Post ?sub, Poll 1 60, Post ?rq, Sleep 5000, Poll 2 60, Post ?rq] \<rparr>)"
    by (rule pollImage_step_return [OF lt(2) q2 r2])
  finally have poll: "pollImage ?js empty_then_urls example_client ''jimeng_t2i_v40''
          ImageTaskFailed ImagePollTimeout (JStr ''T1'') 0 \<lparr> sent = 1, trace = [Post ?sub] \<rparr>
      = (Some (Inr ?answer),
         \<lparr> sent = 3, trace = [Post ?sub, Poll 1 60, Post ?rq, Sleep 5000, Poll 2 60, Post ?rq] \<rparr>)" .
  have first: "fst (queryAsyncTask ?js empty_then_urls example_client ?qp
                      \<lparr> sent = 1, trace = [] \<rparr>) = Some ?empty"
    by (simp add: queryAsyncTask_eq empty_then_urls_def urls_reply_def settle_200
        and_then_def catch_failure_def queryAsyncTask_response_ok)
  show ?thesis
    using submit poll first by (simp add: generateJimengV40Image_def example_builtins_def)
qed

section \<open>C3: timeout and status handling of the requests\<close>

text \<open>
  C3 at a provider that answers every request with status 500, and at one that never
  answers. getVideoTaskResult and submitI2VTask send their requests without a timeout and
  with the default status check of axios: the status 500 is rejected by axios itself, the
  error returned is that rejection (after the one retry) and not the HTTP error text of the
  method's own response handling; and when no answer comes, either method is stuck in its
  first request and never returns. queryAsyncTask sends its request with the client's
  timeout and with every status accepted: it receives the status 500 as data and returns
  its own HTTP error, and when no answer comes it returns the timeout error of axios.
\<close>

theorem video_requests_without_timeout_and_status_check:
  "getVideoTaskResult example_builtins (\<lambda>n. Response 500 (JObj [])) (JStr ''T1'')
      ''jimeng_vgfm_t2v_l20'' fresh
     = (Some \<lparr> success = False, image_urls = JUndefined, video_urls = JUndefined,
           error = Some (StatusRejected 500), raw_response = JUndefined, task_id = JUndefined,
           status = JUndefined, data = JUndefined \<rparr>,
        \<lparr> sent = 2,
          trace = [Post (getVideoTaskResult_request (JStr ''T1'') ''jimeng_vgfm_t2v_l20''),
                   Sleep 5000,
                   Post (getVideoTaskResult_request (JStr ''T1'') ''jimeng_vgfm_t2v_l20'')] \<rparr>)
   \<and> rq_timeout (getVideoTaskResult_request (JStr ''T1'') ''jimeng_vgfm_t2v_l20'') = None
   \<and> rq_validateStatus (getVideoTaskResult_request (JStr ''T1'') ''jimeng_vgfm_t2v_l20'')
       = Default2xx
   \<and> submitI2VTask example_builtins (\<lambda>n. Response 500 (JObj []))
        (example_i2v\<lparr> i2v_image_url := Some ''https://x/c.png'' \<rparr>) fresh
     = (Some \<lparr> success = False, image_urls = JUndefined, video_urls = JUndefined,
           error = Some (StatusRejected 500), raw_response = JUndefined, task_id = JUndefined,
           status = JUndefined, data = JUndefined \<rparr>,
        \<lparr> sent = 2,
          trace = [Post (submitI2VTask_request
                           (example_i2v\<lparr> i2v_image_url := Some ''https://x/c.png'' \<rparr>)
                           [''https://x/c.png'']),
                   Sleep 60000,
                   Post (submitI2VTask_request
                           (example_i2v\<lparr> i2v_image_url := Some ''https://x/c.png'' \<rparr>)
                           [''https://x/c.png''])] \<rparr>)
   \<and> rq_timeout (submitI2VTask_request
                    (example_i2v\<lparr> i2v_image_url := Some ''https://x/c.png'' \<rparr>)
                    [''https://x/c.png'']) = None
   \<and> rq_validateStatus (submitI2VTask_request
                    (example_i2v\<lparr> i2v_image_url := Some ''https://x/c.png'' \<rparr>)
                    [''https://x/c.png'']) = Default2xx
   \<and> queryAsyncTask example_builtins (\<lambda>n. Response 500 (JObj [])) example_client
        \<lparr> q_req_key = ''jimeng_t2i_v40'', q_task_id = JStr ''T1'', q_req_json = None \<rparr> fresh
     = (Some \<lparr> success = False, image_urls = JUndefined, video_urls = JUndefined,
           error = Some (HttpError 500), raw_response = JUndefined, task_id = JUndefined,
           status = JUndefined, data = JUndefined \<rparr>,
        \<lparr> sent = 1,
          trace = [Post (queryAsyncTask_request example_client
                     \<lparr> q_req_key = ''jimeng_t2i_v40'', q_task_id = JStr ''T1'',
                       q_req_json = None \<rparr>)] \<rparr>)
   \<and> rq_timeout (queryAsyncTask_request example_client
                    \<lparr> q_req_key = ''jimeng_t2i_v40'', q_task_id = JStr ''T1'',
                      q_req_json = None \<rparr>) = Some 30000
   \<and> rq_validateStatus (queryAsyncTask_request example_client
                    \<lparr> q_req_key = ''jimeng_t2i_v40'', q_task_id = JStr ''T1'',
                      q_req_json = None \<rparr>) = AnyStatus
   \<and> getVideoTaskResult example_builtins (\<lambda>n. Silence) (JStr ''T1'')
        ''jimeng_vgfm_t2v_l20'' fresh
     = (None,
        \<lparr> sent = 1,
          trace = [Post (getVideoTaskResult_request (JStr ''T1'') ''jimeng_vgfm_t2v_l20'')] \<rparr>)
   \<and> submitI2VTask example_builtins (\<lambda>n. Silence)
        (example_i2v\<lparr> i2v_image_url := Some ''https://x/c.png'' \<rparr>) fresh
     = (None,
        \<lparr> sent = 1,
          trace = [Post (submitI2VTask_request
                           (example_i2v\<lparr> i2v_image_url := Some ''https://x/c.png'' \<rparr>)
                           [''https://x/c.png''])] \<rparr>)
   \<and> queryAsyncTask example_builtins (\<lambda>n. Silence) example_client
        \<lparr> q_req_key = ''jimeng_t2i_v40'', q_task_id = JStr ''T1'', q_req_json = None \<rparr> fresh
     = (Some \<lparr> success = False, image_urls = JUndefined, video_urls = JUndefined,
           error = Some (TimeoutExceeded 30000), raw_response = JUndefined,
           task_id = JUndefined, status = JUndefined, data = JUndefined \<rparr>,
        \<lparr> sent = 1,
          trace = [Post (queryAsyncTask_request example_client
                     \<lparr> q_req_key = ''jimeng_t2i_v40'', q_task_id = JStr ''T1'',
                       q_req_json = None \<rparr>)] \<rparr>)"
proof -
  let ?js = example_builtins
  let ?p = "example_i2v\<lparr> i2v_image_url := Some ''https://x/c.png'' \<rparr>"
  let ?qp = "\<lparr> q_req_key = ''jimeng_t2i_v40'', q_task_id = JStr ''T1'', q_req_json = None \<rparr>"
  have v1: "rq_timeout (getVideoTaskResult_request (JStr ''T1'') ''jimeng_vgfm_t2v_l20'') = None"
    and v2: "rq_validateStatus (getVideoTaskResult_request (JStr ''T1'') ''jimeng_vgfm_t2v_l20'')
       = Default2xx"
    by (simp_all add: getVideoTaskResult_request_def Let_def)
  have i1: "rq_timeout (submitI2VTask_request ?p [''https://x/c.png'']) = None"
    and i2: "rq_validateStatus (submitI2VTask_request ?p [''https://x/c.png'']) = Default2xx"
    by (simp_all add: submitI2VTask_request_def Let_def)
  have q1: "rq_timeout (queryAsyncTask_request example_client ?qp) = Some 30000"
    and q2: "rq_validateStatus (queryAsyncTask_request example_client ?qp) = AnyStatus"
    by (simp_all add: queryAsyncTask_request_def Let_def example_client_def)
  have v: "getVideoTaskResult ?js (\<lambda>n. Response 500 (JObj [])) (JStr ''T1'')
      ''jimeng_vgfm_t2v_l20'' fresh
     = (Some \<lparr> success = False, image_urls = JUndefined, video_urls = JUndefined,
           error = Some (StatusRejected 500), raw_response = JUndefined, task_id = JUndefined,
           status = JUndefined, data = JUndefined \<rparr>,
        \<lparr> sent = 2,
          trace = [Post (getVideoTaskResult_request (JStr ''T1'') ''jimeng_vgfm_t2v_l20''),
                   Sleep 5000,
                   Post (getVideoTaskResult_request (JStr ''T1'') ''jimeng_vgfm_t2v_l20'')] \<rparr>)"
    by (simp add: getVideoTaskResult_eq Let_def settle_def v2 and_then_def failure_def fresh_def)
  have iu: "imageUrls ?p = Inr [''https://x/c.png'']"
    by (simp add: imageUrls_def example_i2v_def)
  have i: "submitI2VTask ?js (\<lambda>n. Response 500 (JObj [])) ?p fresh
     = (Some \<lparr> success = False, image_urls = JUndefined, video_urls = JUndefined,
           error = Some (StatusRejected 500), raw_response = JUndefined, task_id = JUndefined,
           status = JUndefined, data = JUndefined \<rparr>,
        \<lparr> sent = 2,
          trace = [Post (submitI2VTask_request ?p [''https://x/c.png'']),
                   Sleep 60000,
                   Post (submitI2VTask_request ?p [''https://x/c.png''])] \<rparr>)"
    by (simp add: submitI2VTask_def submitI2VTask_loop_0 submitI2VTask_loop_1
        submitI2VTask_try_eq iu settle_def i2 and_then_def failure_def fresh_def emit_def)
  have q: "queryAsyncTask ?js (\<lambda>n. Response 500 (JObj [])) example_client ?qp fresh
     = (Some \<lparr> success = False, image_urls = JUndefined, video_urls = JUndefined,
           error = Some (HttpError 500), raw_response = JUndefined, task_id = JUndefined,
           status = JUndefined, data = JUndefined \<rparr>,
        \<lparr> sent = 1, trace = [Post (queryAsyncTask_request example_client ?qp)] \<rparr>)"
    by (simp add: queryAsyncTask_eq settle_def q2 and_then_def catch_failure_def failure_def
        fresh_def queryAsyncTask_response_def)
  have vs: "getVideoTaskResult ?js (\<lambda>n. Silence) (JStr ''T1'') ''jimeng_vgfm_t2v_l20'' fresh
     = (None,
        \<lparr> sent = 1,
          trace = [Post (getVideoTaskResult_request (JStr ''T1'') ''jimeng_vgfm_t2v_l20'')] \<rparr>)"
    by (simp add: getVideoTaskResult_eq Let_def settle_def v1 fresh_def)
  have istuck: "submitI2VTask ?js (\<lambda>n. Silence) ?p fresh
     = (None, \<lparr> sent = 1, trace = [Post (submitI2VTask_request ?p [''https://x/c.png''])] \<rparr>)"
    by (simp add: submitI2VTask_def submitI2VTask_loop_0 submitI2VTask_try_eq iu settle_def i1
        fresh_def)
  have qs: "queryAsyncTask ?js (\<lambda>n. Silence) example_client ?qp fresh
     = (Some \<lparr> success = False, image_urls = JUndefined, video_urls = JUndefined,
           error = Some (TimeoutExceeded 30000), raw_response = JUndefined,
           task_id = JUndefined, status = JUndefined, data = JUndefined \<rparr>,
        \<lparr> sent = 1, trace = [Post (queryAsyncTask_request example_client ?qp)] \<rparr>)"
    by (simp add: queryAsyncTask_eq settle_def q1 and_then_def catch_failure_def failure_def
        fresh_def)
  show ?thesis
    using v1 v2 i1 i2 q1 q2 v i q vs istuck qs by blast
qed

section \<open>C4: the signing key and the signature\<close>

text \<open>
  C4. The signing key is the four-step chain: the secret keys the hash of the date stamp,
  that digest keys the hash of the region, that digest keys the hash of the service, and
  that digest keys the hash of the literal \<open>request\<close>. The signature is the hex digest of the
  string to sign under that key, scoped by the first eight characters of the timestamp; it
  is the signature that signV4Request writes into the Authorization header; and
  it is a function of the secret, the timestamp, the region in use, the service, the host
  (which the canonical headers name), the query and the body alone: two clients that agree
  on these compute the same signature, whatever their access key, endpoint, debug flag,
  timeout and retry count.
\<close>

theorem getSignatureKey_chain_signature_deterministic:
  "getSignatureKey cr key dateStamp regionName serviceName
     = hmac cr (hmac cr (hmac cr (hmac cr key dateStamp) regionName) serviceName) ''request''
   \<and> signature cr c t q b reg
     = hex cr (hmac cr (getSignatureKey cr (secretKey c) (take 8 t) (usedRegion c reg) (service c))
                       (stringToSign cr c t q b reg))
   \<and> map_of (headers (signV4Request cr c t q b reg)) ''Authorization''
     = Some (''HMAC-SHA256 Credential='' @ accessKey c @ ''/'' @ credentialScope c t reg
             @ '', SignedHeaders='' @ signedHeaders
             @ '', Signature='' @ signature cr c t q b reg)
   \<and> (secretKey c1 = secretKey c2 \<and> service c1 = service c2 \<and> host c1 = host c2
        \<and> usedRegion c1 reg1 = usedRegion c2 reg2
      \<longrightarrow> signature cr c1 t q b reg1 = signature cr c2 t q b reg2)"
proof (intro conjI impI)
  show "getSignatureKey cr key dateStamp regionName serviceName
     = hmac cr (hmac cr (hmac cr (hmac cr key dateStamp) regionName) serviceName) ''request''"
    by (simp add: getSignatureKey_def)
  show "signature cr c t q b reg
     = hex cr (hmac cr (getSignatureKey cr (secretKey c) (take 8 t) (usedRegion c reg) (service c))
                       (stringToSign cr c t q b reg))"
    by (simp add: signature_def datestamp_def)
  show "map_of (headers (signV4Request cr c t q b reg)) ''Authorization''
     = Some (''HMAC-SHA256 Credential='' @ accessKey c @ ''/'' @ credentialScope c t reg
             @ '', SignedHeaders='' @ signedHeaders
             @ '', Signature='' @ signature cr c t q b reg)"
    by (simp add: signV4Request_def)
next
  assume same: "secretKey c1 = secretKey c2 \<and> service c1 = service c2 \<and> host c1 = host c2
        \<and> usedRegion c1 reg1 = usedRegion c2 reg2"
  then have "canonicalRequest cr c1 t q b = canonicalRequest cr c2 t q b"
    by (simp add: canonicalRequest_def canonicalHeaders_def)
  moreover have "credentialScope c1 t reg1 = credentialScope c2 t reg2"
    using same by (simp add: credentialScope_def)
  ultimately have "stringToSign cr c1 t q b reg1 = stringToSign cr c2 t q b reg2"
    by (simp add: stringToSign_def)
  then show "signature cr c1 t q b reg1 = signature cr c2 t q b reg2"
    using same by (simp add: signature_def)
qed

theorem getSignatureKey_chain_signature_deterministic_witness:
  "signature \<lparr> hmac = (\<lambda>k m. k @ ''|'' @ m), sha256_hex = rev, hex = id \<rparr>
     \<lparr> accessKey = ''AK1'', secretKey = ''s3cret'', endpoint = ''https://a.example'',
       host = ''visual.volcengineapi.com'', region = ''cn-north-1'', service = ''cv'',
       debug = False, timeout = 30000, retries = 3 \<rparr>
     ''20260102T030405Z'' ''Action=CVProcess&Version=2022-08-31'' ''{}'' None
   = signature \<lparr> hmac = (\<lambda>k m. k @ ''|'' @ m), sha256_hex = rev, hex = id \<rparr>
     \<lparr> accessKey = ''AK2'', secretKey = ''s3cret'', endpoint = ''https://b.example'',
       host = ''visual.volcengineapi.com'', region = ''us-east-1'', service = ''cv'',
       debug = True, timeout = 5, retries = 0 \<rparr>
     ''20260102T030405Z'' ''Action=CVProcess&Version=2022-08-31'' ''{}'' (Some ''cn-north-1'')"
proof -
  let ?cr = "\<lparr> hmac = (\<lambda>k m. k @ ''|'' @ m), sha256_hex = rev, hex = id \<rparr>"
  let ?c1 = "\<lparr> accessKey = ''AK1'', secretKey = ''s3cret'', endpoint = ''https://a.example'',
       host = ''visual.volcengineapi.com'', region = ''cn-north-1'', service = ''cv'',
       debug = False, timeout = 30000, retries = 3 \<rparr>"
  let ?c2 = "\<lparr> accessKey = ''AK2'', secretKey = ''s3cret'', endpoint = ''https://b.example'',
       host = ''visual.volcengineapi.com'', region = ''us-east-1'', service = ''cv'',
       debug = True, timeout = 5, retries = 0 \<rparr>"
  have h: "secretKey ?c1 = secretKey ?c2 \<and> service ?c1 = service ?c2 \<and> host ?c1 = host ?c2
        \<and> usedRegion ?c1 None = usedRegion ?c2 (Some ''cn-north-1'')"
    by (simp add: usedRegion_def)
  from getSignatureKey_chain_signature_deterministic
         [where cr = ?cr and ?c1.0 = ?c1 and ?c2.0 = ?c2 and ?reg1.0 = None
            and ?reg2.0 = "Some ''cn-north-1''"] h
  show ?thesis by blast
qed

section \<open>C5: canonical query strings\<close>

lemma sortedKeys_mset:
  assumes "mset qs = mset ps"
  shows "sortedKeys qs = sortedKeys ps"
proof -
  have "mset (map fst qs) = mset (map fst ps)"
    using assms by (metis mset_map)
  then show ?thesis
    unfolding sortedKeys_def Object_keys_def
    by (metis properties_for_sort sorted_sort mset_sort)
qed

lemma member_mset:
  assumes "distinct (Object_keys ps)" and "mset qs = mset ps"
  shows "member qs = member ps"
proof -
  have "mset (map fst qs) = mset (map fst ps)"
    using assms(2) by (metis mset_map)
  then have dq: "distinct (map fst qs)"
    using assms(1) unfolding Object_keys_def by (metis mset_eq_imp_distinct_iff)
  have "set qs = set ps"
    using assms(2) by (metis mset_eq_setD)
  then have "map_of qs = map_of ps"
    using dq assms(1) unfolding Object_keys_def by (simp add: map_of_inject_set)
  then show ?thesis
    by (simp add: member_def fun_eq_iff)
qed

lemma formatQuery_mset:
  assumes "distinct (Object_keys ps)" and "mset qs = mset ps"
  shows "formatQuery qs = formatQuery ps"
  unfolding formatQuery_def
  by (simp add: sortedKeys_mset [OF assms(2)] member_mset [OF assms])

lemma sortedKeys_strict:
  assumes "distinct (Object_keys ps)"
  shows "sorted_wrt (<) (sortedKeys ps)"
  using assms unfolding sortedKeys_def by (simp add: strict_sorted_iff)

lemma keys_sort_key: "Object_keys (sort_key fst ps) = sortedKeys ps"
proof -
  have "mset (map fst (sort_key fst ps)) = mset (map fst ps)"
    by simp
  moreover have "sorted (map fst (sort_key fst ps))"
    by (rule sorted_sort_key)
  ultimately have "sort (map fst ps) = map fst (sort_key fst ps)"
    by (rule properties_for_sort)
  then show ?thesis
    by (simp add: Object_keys_def sortedKeys_def)
qed

text \<open>
  C5. For every query object \<open>ps\<close> (a finite mapping from strings to strings, no key twice):
  the keys \<open>formatQuery\<close> writes are strictly ascending in the lexicographic order and are
  exactly the keys of \<open>ps\<close>; the result is these keys, each as \<open>key=value\<close>, joined with
  \<open>&\<close>; any other enumeration order \<open>qs\<close> of the same mapping gives the same string; and the
  mapping enumerated in sorted key order (\<open>sort_key fst ps\<close>) is left in that order and gives
  the same string again.
\<close>

theorem formatQuery_canonical:
  assumes "distinct (Object_keys ps)"
  shows "sorted_wrt (<) (sortedKeys ps)
       \<and> set (sortedKeys ps) = set (Object_keys ps)
       \<and> formatQuery ps
           = join ''&'' (map (\<lambda>key. key @ ''='' @ member ps key) (sortedKeys ps))
       \<and> (\<forall>qs. mset qs = mset ps \<longrightarrow> formatQuery qs = formatQuery ps)
       \<and> Object_keys (sort_key fst ps) = sortedKeys ps
       \<and> formatQuery (sort_key fst ps) = formatQuery ps"
proof -
  have "formatQuery (sort_key fst ps) = formatQuery ps"
    by (rule formatQuery_mset [OF assms]) simp
  moreover have "set (sortedKeys ps) = set (Object_keys ps)"
    by (simp add: sortedKeys_def)
  moreover have "formatQuery ps
      = join ''&'' (map (\<lambda>key. key @ ''='' @ member ps key) (sortedKeys ps))"
    by (simp add: formatQuery_def)
  ultimately show ?thesis
    using sortedKeys_strict [OF assms] formatQuery_mset [OF assms] keys_sort_key [of ps]
    by blast
qed

theorem formatQuery_canonical_witness:
  "distinct (Object_keys [(''Version'', ''2022-08-31''), (''Action'', ''CVProcess'')])
   \<and> sortedKeys [(''Version'', ''2022-08-31''), (''Action'', ''CVProcess'')]
       = [''Action'', ''Version'']
   \<and> formatQuery [(''Version'', ''2022-08-31''), (''Action'', ''CVProcess'')]
       = ''Action=CVProcess&Version=2022-08-31''
   \<and> formatQuery [(''Action'', ''CVProcess''), (''Version'', ''2022-08-31'')]
       = formatQuery [(''Version'', ''2022-08-31''), (''Action'', ''CVProcess'')]"
proof -
  have d: "distinct (Object_keys [(''Version'', ''2022-08-31''), (''Action'', ''CVProcess'')])"
    by (simp add: Object_keys_def)
  have k: "sortedKeys [(''Version'', ''2022-08-31''), (''Action'', ''CVProcess'')]
         = [''Action'', ''Version'']"
    by (simp add: sortedKeys_def Object_keys_def)
  have m: "mset [(''Action'', ''CVProcess''), (''Version'', ''2022-08-31'')]
         = mset [(''Version'', ''2022-08-31''), (''Action'', ''CVProcess'')]"
    by simp
  from formatQuery_canonical [OF d] m
  have e: "formatQuery [(''Action'', ''CVProcess''), (''Version'', ''2022-08-31'')]
       = formatQuery [(''Version'', ''2022-08-31''), (''Action'', ''CVProcess'')]"
    by blast
  have v: "formatQuery [(''Version'', ''2022-08-31''), (''Action'', ''CVProcess'')]
       = ''Action=CVProcess&Version=2022-08-31''"
    by (simp add: formatQuery_def k member_def)
  show ?thesis using d k e v by blast
qed

section \<open>C6: moderation codes\<close>

text \<open>
  C6 at a provider that answers every query with the moderation code 50411. queryAsyncTask
  returns a result with status FAILED that carries the provider's message, but with
  \<^verbatim>\<open>success: false\<close>; the loop looks at the status of successful results only, so it
  waits and queries again: 60 queries, 60 waits of 5000 ms, and the result is the
  poll-timeout failure.
\<close>

theorem moderation_reply_is_polled_until_timeout:
  "fst (queryAsyncTask example_builtins (\<lambda>n. moderation_reply) example_client
          \<lparr> q_req_key = ''jimeng_t2i_v40'', q_task_id = JStr ''T1'',
            q_req_json = Some return_url_json \<rparr> fresh)
     = Some \<lparr> success = False, image_urls = JUndefined, video_urls = JUndefined,
         error = Some (Provider (JStr ''Post Img Risk Not Pass'')),
         raw_response = JObj [(''code'', JNum 50411),
                              (''message'', JStr ''Post Img Risk Not Pass'')],
         task_id = JUndefined, status = JStr ''FAILED'', data = JUndefined \<rparr>
   \<and> fst (pollImage example_builtins (\<lambda>n. moderation_reply) example_client ''jimeng_t2i_v40''
            ImageTaskFailed ImagePollTimeout (JStr ''T1'') 0 fresh)
     = Some (Inr \<lparr> success = False, image_urls = JUndefined, video_urls = JUndefined,
         error = Some ImagePollTimeout, raw_response = JUndefined, task_id = JStr ''T1'',
         status = JUndefined, data = JUndefined \<rparr>)
   \<and> sent (snd (pollImage example_builtins (\<lambda>n. moderation_reply) example_client
                   ''jimeng_t2i_v40'' ImageTaskFailed ImagePollTimeout (JStr ''T1'') 0 fresh))
     = 60
   \<and> polls (trace (snd (pollImage example_builtins (\<lambda>n. moderation_reply) example_client
                   ''jimeng_t2i_v40'' ImageTaskFailed ImagePollTimeout (JStr ''T1'') 0 fresh)))
     = 60
   \<and> sleeps (trace (snd (pollImage example_builtins (\<lambda>n. moderation_reply) example_client
                   ''jimeng_t2i_v40'' ImageTaskFailed ImagePollTimeout (JStr ''T1'') 0 fresh)))
     = replicate 60 5000"
proof -
  let ?js = example_builtins
  let ?qp = "\<lparr> q_req_key = ''jimeng_t2i_v40'', q_task_id = JStr ''T1'',
                q_req_json = Some return_url_json \<rparr>"
  let ?r = "\<lparr> success = False, image_urls = JUndefined, video_urls = JUndefined,
         error = Some (Provider (JStr ''Post Img Risk Not Pass'')),
         raw_response = JObj [(''code'', JNum 50411),
                              (''message'', JStr ''Post Img Risk Not Pass'')],
         task_id = JUndefined, status = JStr ''FAILED'', data = JUndefined \<rparr>"
  have q: "fst (queryAsyncTask ?js (\<lambda>n. moderation_reply) example_client ?qp t) = Some ?r" for t
    by (simp add: queryAsyncTask_fst moderation_reply_def settle_200 and_then_def
        catch_failure_def queryAsyncTask_response_def moderation_codes_def)
  have w: "image_step ?js ImageTaskFailed (JStr ''T1'') ?r = Wait pollingInterval"
    by (simp add: image_step_def)
  have "\<exists>es. pollImage ?js (\<lambda>n. moderation_reply) example_client ''jimeng_t2i_v40''
            ImageTaskFailed ImagePollTimeout (JStr ''T1'') 0 fresh
            = (Some (Inr ((failure ImagePollTimeout)\<lparr> task_id := JStr ''T1'' \<rparr>)),
               \<lparr> sent = sent fresh + (maxAttempts_image - 0), trace = trace fresh @ es \<rparr>)
          \<and> polls es = maxAttempts_image - 0
          \<and> sleeps es = replicate (maxAttempts_image - 0) pollingInterval"
    by (rule pollImage_all_wait) (simp add: q w)
  then show ?thesis
    using q [of fresh]
    by (auto simp: failure_def fresh_def maxAttempts_image_def pollingInterval_def)
qed

section \<open>C7: the polling budget\<close>



section \<open>C8: sizes of submitJimengV40Task\<close>




section \<open>C9: the image inputs of submitI2VTask\<close>

text \<open>
  C9. A non-empty \<^verbatim>\<open>image_urls\<close> array is used as it is, whatever \<^verbatim>\<open>image_url\<close> is;
  when \<^verbatim>\<open>image_urls\<close> is left out or empty, a given \<^verbatim>\<open>image_url\<close> (a string that is not
  empty) becomes the one-element array; every request the call sends (one, or two with the
  retry) has these URLs as \<^verbatim>\<open>image_urls\<close> of its body; \<^verbatim>\<open>aspect_ratio\<close> of the body is
  \<open>16:9\<close> when none is given and the given one otherwise; and when neither input is given
  (left out, an empty array, an empty string) the call sends no request and returns a
  failure without a task id, after the one wait of 60 seconds of its retry loop.
\<close>

theorem submitI2VTask_image_inputs:
  "(i2v_image_urls p = Some us \<and> us \<noteq> [] \<longrightarrow> imageUrls p = Inr us)
   \<and> ((i2v_image_urls p = None \<or> i2v_image_urls p = Some [])
        \<and> i2v_image_url p = Some u \<and> u \<noteq> [] \<longrightarrow> imageUrls p = Inr [u])
   \<and> (imageUrls p = Inr urls \<longrightarrow>
        (\<exists>es. snd (submitI2VTask js net p s)
                 = \<lparr> sent = sent s + length (posts es), trace = trace s @ es \<rparr>
             \<and> (posts es = [submitI2VTask_request p urls]
                \<or> posts es = [submitI2VTask_request p urls, submitI2VTask_request p urls]))
        \<and> member_of (rq_body (submitI2VTask_request p urls)) ''image_urls''
            = Inr (JArr (map JStr urls)))
   \<and> (i2v_aspect_ratio p = None \<longrightarrow>
        member_of (rq_body (submitI2VTask_request p urls)) ''aspect_ratio'' = Inr (JStr ''16:9''))
   \<and> (i2v_aspect_ratio p = Some a \<and> a \<noteq> [] \<longrightarrow>
        member_of (rq_body (submitI2VTask_request p urls)) ''aspect_ratio'' = Inr (JStr a))
   \<and> ((i2v_image_urls p = None \<or> i2v_image_urls p = Some [])
        \<and> (i2v_image_url p = None \<or> i2v_image_url p = Some [])
      \<longrightarrow> submitI2VTask js net p s
          = (Some \<lparr> success = False, image_urls = JUndefined, video_urls = JUndefined,
                     error = Some MissingImage, raw_response = JUndefined,
                     task_id = JUndefined, status = JUndefined, data = JUndefined \<rparr>,
             \<lparr> sent = sent s, trace = trace s @ [Sleep 60000] \<rparr>))"
  using imageUrls_cases [of p us u] submitI2VTask_posts [of p urls js net s]
    submitI2VTask_missing [of p js net s]
  by (simp add: bodyParams_members string_or_def failure_def)

text \<open>
  Two URLs in \<^verbatim>\<open>image_urls\<close> win over \<^verbatim>\<open>image_url\<close>; an empty array falls back to
  \<^verbatim>\<open>image_url\<close>; the list is sent as \<^verbatim>\<open>image_urls\<close>; the aspect ratio defaults, and a given
  one is sent; no input at all fails without a request.
\<close>

theorem submitI2VTask_image_inputs_witness:
  "imageUrls (example_i2v\<lparr> i2v_image_urls := Some [''https://x/a.png'', ''https://x/b.png''],
                            i2v_image_url := Some ''https://x/c.png'' \<rparr>)
     = Inr [''https://x/a.png'', ''https://x/b.png'']
   \<and> imageUrls (example_i2v\<lparr> i2v_image_urls := Some [], i2v_image_url := Some ''https://x/c.png'' \<rparr>)
     = Inr [''https://x/c.png'']
   \<and> member_of (rq_body (submitI2VTask_request
        (example_i2v\<lparr> i2v_image_url := Some ''https://x/c.png'' \<rparr>) [''https://x/c.png'']))
        ''image_urls'' = Inr (JArr [JStr ''https://x/c.png''])
   \<and> member_of (rq_body (submitI2VTask_request
        (example_i2v\<lparr> i2v_image_url := Some ''https://x/c.png'' \<rparr>) [''https://x/c.png'']))
        ''aspect_ratio'' = Inr (JStr ''16:9'')
   \<and> member_of (rq_body (submitI2VTask_request
        (example_i2v\<lparr> i2v_aspect_ratio := Some ''9:16'' \<rparr>) [''https://x/c.png'']))
        ''aspect_ratio'' = Inr (JStr ''9:16'')
   \<and> submitI2VTask example_builtins (\<lambda>n. task_reply) example_i2v fresh
     = (Some \<lparr> success = False, image_urls = JUndefined, video_urls = JUndefined,
                error = Some MissingImage, raw_response = JUndefined, task_id = JUndefined,
                status = JUndefined, data = JUndefined \<rparr>,
        \<lparr> sent = 0, trace = [Sleep 60000] \<rparr>)"
proof -
  let ?p1 = "example_i2v\<lparr> i2v_image_urls := Some [''https://x/a.png'', ''https://x/b.png''],
                            i2v_image_url := Some ''https://x/c.png'' \<rparr>"
  let ?p2 = "example_i2v\<lparr> i2v_image_urls := Some [], i2v_image_url := Some ''https://x/c.png'' \<rparr>"
  let ?p3 = "example_i2v\<lparr> i2v_image_url := Some ''https://x/c.png'' \<rparr>"
  let ?p4 = "example_i2v\<lparr> i2v_aspect_ratio := Some ''9:16'' \<rparr>"
  have a: "i2v_image_urls ?p1 = Some [''https://x/a.png'', ''https://x/b.png'']
       \<and> [''https://x/a.png'', ''https://x/b.png''] \<noteq> []"
    by simp
  have b: "(i2v_image_urls ?p2 = None \<or> i2v_image_urls ?p2 = Some [])
       \<and> i2v_image_url ?p2 = Some ''https://x/c.png'' \<and> ''https://x/c.png'' \<noteq> []"
    by simp
  have c: "i2v_aspect_ratio ?p3 = None"
    by (simp add: example_i2v_def)
  have c': "imageUrls ?p3 = Inr [''https://x/c.png'']"
    by (simp add: imageUrls_def example_i2v_def)
  have d: "(i2v_image_urls example_i2v = None \<or> i2v_image_urls example_i2v = Some [])
       \<and> (i2v_image_url example_i2v = None \<or> i2v_image_url example_i2v = Some [])"
    by (simp add: example_i2v_def)
  have e: "i2v_aspect_ratio ?p4 = Some ''9:16'' \<and> ''9:16'' \<noteq> []"
    by simp
  show ?thesis
    using submitI2VTask_image_inputs
        [where p = ?p1 and us = "[''https://x/a.png'', ''https://x/b.png'']"] a
      submitI2VTask_image_inputs [where p = ?p2 and u = "''https://x/c.png''"] b
      submitI2VTask_image_inputs [where p = ?p3 and urls = "[''https://x/c.png'']"] c c'
      submitI2VTask_image_inputs [where p = ?p4 and urls = "[''https://x/c.png'']"
        and a = "''9:16''"] e
      submitI2VTask_image_inputs [where p = example_i2v and js = example_builtins
        and net = "\<lambda>n. task_reply" and s = fresh] d
    by (simp add: fresh_def)
qed

section \<open>C10: the video URLs of getVideoTaskResult\<close>

text \<open>
  C10. When a video query is answered with status 200, code 10000 and a task with a string
  status, the \<^verbatim>\<open>video_urls\<close> returned are, in this order, the URLs taken from
  \<^verbatim>\<open>resp_data\<close> and then \<^verbatim>\<open>video_url\<close> when the task has one (a string that is not
  empty). The URLs taken from \<^verbatim>\<open>resp_data\<close> are the array \<^verbatim>\<open>urls\<close> of the value the
  string parses to, and nothing when \<^verbatim>\<open>resp_data\<close> is absent, is not a string, does not
  parse, or parses to a value without an array \<^verbatim>\<open>urls\<close>.
\<close>

theorem getVideoTaskResult_video_urls:
  assumes "net (sent s) = Response 200 d"
    and "member_of d ''code'' = Inr (JNum 10000)"
    and "member_of d ''data'' = Inr taskData"
    and "member_of taskData ''status'' = Inr (JStr t)"
  shows "map_option video_urls (fst (getVideoTaskResult js net taskId reqKey s))
           = Some (JArr (urls_of_resp_data js taskData
                         @ (case read taskData ''video_url'' of
                              JStr v \<Rightarrow> if v = [] then [] else [JStr v]
                            | other \<Rightarrow> [])))
       \<and> (read taskData ''resp_data'' = JStr r \<and> r \<noteq> [] \<and> JSON_parse js r = Some respData
            \<and> member_of respData ''urls'' = Inr (JArr us)
          \<longrightarrow> urls_of_resp_data js taskData = us)
       \<and> (read taskData ''resp_data'' = JUndefined \<longrightarrow> urls_of_resp_data js taskData = [])
       \<and> ((\<forall>x. read taskData ''resp_data'' \<noteq> JStr x) \<longrightarrow> urls_of_resp_data js taskData = [])
       \<and> (read taskData ''resp_data'' = JStr r \<and> JSON_parse js r = None
          \<longrightarrow> urls_of_resp_data js taskData = [])
       \<and> (read taskData ''resp_data'' = JStr r \<and> JSON_parse js r = Some respData
            \<and> (\<forall>xs. member_of respData ''urls'' \<noteq> Inr (JArr xs))
          \<longrightarrow> urls_of_resp_data js taskData = [])
       \<and> (read taskData ''video_url'' = JStr v \<and> v \<noteq> []
          \<longrightarrow> map_option video_urls (fst (getVideoTaskResult js net taskId reqKey s))
              = Some (JArr (urls_of_resp_data js taskData @ [JStr v])))
       \<and> (read taskData ''video_url'' = JUndefined
          \<longrightarrow> map_option video_urls (fst (getVideoTaskResult js net taskId reqKey s))
              = Some (JArr (urls_of_resp_data js taskData)))"
proof -
  have v: "map_option video_urls (fst (getVideoTaskResult js net taskId reqKey s))
        = Some (JArr (videoUrls js taskData))"
    using getVideoTaskResult_first_ok [where net = net and s = s and js = js, OF assms(1)
            getVideoTaskResult_response_ok [OF assms(2-4), of js], of taskId reqKey]
    by simp
  have a: "read taskData ''resp_data'' = JStr r \<and> r \<noteq> [] \<and> JSON_parse js r = Some respData
            \<and> member_of respData ''urls'' = Inr (JArr us)
          \<longrightarrow> urls_of_resp_data js taskData = us"
    by (simp add: urls_of_resp_data_def)
  have b: "read taskData ''resp_data'' = JUndefined \<longrightarrow> urls_of_resp_data js taskData = []"
    by (simp add: urls_of_resp_data_def)
  have c: "(\<forall>x. read taskData ''resp_data'' \<noteq> JStr x) \<longrightarrow> urls_of_resp_data js taskData = []"
    by (cases "read taskData ''resp_data''") (simp_all add: urls_of_resp_data_def)
  have d: "read taskData ''resp_data'' = JStr r \<and> JSON_parse js r = None
          \<longrightarrow> urls_of_resp_data js taskData = []"
    by (simp add: urls_of_resp_data_def)
  have e: "read taskData ''resp_data'' = JStr r \<and> JSON_parse js r = Some respData
            \<and> (\<forall>xs. member_of respData ''urls'' \<noteq> Inr (JArr xs))
          \<longrightarrow> urls_of_resp_data js taskData = []"
    by (auto simp: urls_of_resp_data_def split: sum.splits json.splits)
  show ?thesis
    unfolding v using a b c d e by (simp add: videoUrls_def)
qed

text \<open>
  A task with one URL in \<^verbatim>\<open>resp_data\<close> and a \<^verbatim>\<open>video_url\<close>: the URL of \<^verbatim>\<open>resp_data\<close>
  comes first. A task with neither: the list is empty.
\<close>

theorem getVideoTaskResult_video_urls_witness:
  "map_option video_urls
     (fst (getVideoTaskResult example_builtins (\<lambda>n. video_reply) (JStr ''T1'')
             ''jimeng_vgfm_t2v_l20'' fresh))
     = Some (JArr [JStr ''https://x/v1.mp4'', JStr ''https://x/v2.mp4''])
   \<and> map_option video_urls
       (fst (getVideoTaskResult example_builtins (\<lambda>n. status_reply ''done'')
               (JStr ''T1'') ''jimeng_vgfm_t2v_l20'' fresh))
     = Some (JArr [])"
proof -
  let ?taskData = "JObj [(''status'', JStr ''done''), (''resp_data'', JStr example_resp_data),
                         (''video_url'', JStr ''https://x/v2.mp4'')]"
  let ?d = "JObj [(''code'', JNum 10000), (''data'', ?taskData)]"
  let ?taskData' = "JObj [(''status'', JStr ''done'')]"
  let ?d' = "JObj [(''code'', JNum 10000), (''data'', ?taskData')]"
  have h1: "(\<lambda>n. video_reply) (sent fresh) = Response 200 ?d"
    by (simp add: video_reply_def)
  have h2: "member_of ?d ''code'' = Inr (JNum 10000)" by simp
  have h3: "member_of ?d ''data'' = Inr ?taskData" by simp
  have h4: "member_of ?taskData ''status'' = Inr (JStr ''done'')" by simp
  have r: "read ?taskData ''resp_data'' = JStr example_resp_data
      \<and> example_resp_data \<noteq> []
      \<and> JSON_parse example_builtins example_resp_data
          = Some (JObj [(''urls'', JArr [JStr ''https://x/v1.mp4''])])
      \<and> member_of (JObj [(''urls'', JArr [JStr ''https://x/v1.mp4''])]) ''urls''
          = Inr (JArr [JStr ''https://x/v1.mp4''])"
    by (simp add: read_def example_builtins_def example_resp_data_def)
  have u: "read ?taskData ''video_url'' = JStr ''https://x/v2.mp4'' \<and> ''https://x/v2.mp4'' \<noteq> []"
    by (simp add: read_def)
  have k1: "(\<lambda>n. status_reply ''done'') (sent fresh) = Response 200 ?d'"
    by (simp add: status_reply_def)
  have k2: "member_of ?d' ''code'' = Inr (JNum 10000)" by simp
  have k3: "member_of ?d' ''data'' = Inr ?taskData'" by simp
  have k4: "member_of ?taskData' ''status'' = Inr (JStr ''done'')" by simp
  have n: "read ?taskData' ''resp_data'' = JUndefined \<and> read ?taskData' ''video_url'' = JUndefined"
    by (simp add: read_def)
  have first: "map_option video_urls
     (fst (getVideoTaskResult example_builtins (\<lambda>n. video_reply) (JStr ''T1'')
             ''jimeng_vgfm_t2v_l20'' fresh))
     = Some (JArr [JStr ''https://x/v1.mp4'', JStr ''https://x/v2.mp4''])"
    using getVideoTaskResult_video_urls [where net = "\<lambda>n. video_reply" and s = fresh
      and js = example_builtins and r = example_resp_data
      and respData = "JObj [(''urls'', JArr [JStr ''https://x/v1.mp4''])]"
      and us = "[JStr ''https://x/v1.mp4'']" and v = "''https://x/v2.mp4''"
      and taskId = "JStr ''T1''" and reqKey = "''jimeng_vgfm_t2v_l20''", OF h1 h2 h3 h4] r u
    by auto
  have second: "map_option video_urls
       (fst (getVideoTaskResult example_builtins (\<lambda>n. status_reply ''done'')
               (JStr ''T1'') ''jimeng_vgfm_t2v_l20'' fresh))
     = Some (JArr [])"
    using getVideoTaskResult_video_urls [where net = "\<lambda>n. status_reply ''done''" and s = fresh
      and js = example_builtins
      and taskId = "JStr ''T1''" and reqKey = "''jimeng_vgfm_t2v_l20''", OF k1 k2 k3 k4] n
    by auto
  show ?thesis
    using first second by (rule conjI)
qed

end
